theory Spec2Isabelle
  imports Main "HOL-Library.Signed_Division"
begin

section \<open>The central widget of VGC: splitters and the layout of four regions\<close>

text \<open>
  This theory embeds \<^verbatim>\<open>src/libs/vgc/widgets/centralwidget.cpp\<close>: the class
  \<^verbatim>\<open>Splitter\<close> (a draggable divider) and the class \<^verbatim>\<open>CentralWidget\<close>, which lays
  out a viewer, a toolbar, a console and a panel and owns three splitters.

  C++ \<^verbatim>\<open>int\<close> values are modelled as unbounded integers: signed overflow is undefined
  behaviour in C++, so the embedding speaks about executions in which every
  intermediate value fits an \<^verbatim>\<open>int\<close>. Division \<^verbatim>\<open>/\<close> on \<^verbatim>\<open>int\<close> truncates towards
  zero and is written \<open>sdiv\<close>.

  What Qt does is outside the repository. A widget is modelled by the attributes the
  code sets and reads: \<^verbatim>\<open>setGeometry\<close> stores the rectangle it is given, \<^verbatim>\<open>show\<close>
  and \<^verbatim>\<open>hide\<close> set the visibility that \<^verbatim>\<open>isVisibleTo(parent)\<close> reads for a direct
  child, \<^verbatim>\<open>update\<close> (a repaint request) and \<^verbatim>\<open>updateGeometry\<close> (a notification of the
  layout system) change none of them.
\<close>

subsection \<open>Qt values\<close>

record QPoint =
  px :: int
  py :: int

record QSize =
  sw :: int
  sh :: int

record QRect =
  rx :: int
  ry :: int
  rw :: int
  rh :: int

record QMargins =
  mleft :: int
  mtop :: int
  mright :: int
  mbottom :: int

datatype Orientation = Horizontal | Vertical

datatype CursorShape = ArrowCursor | SplitHCursor | SplitVCursor

datatype MouseButton = LeftButton | RightButton | MiddleButton

datatype HoverEvent = HoverEnter | HoverLeave | OtherEvent

record QMouseEvent =
  pos :: QPoint
  button :: MouseButton
  buttons :: "MouseButton set"

text \<open>
  The attributes of a \<^verbatim>\<open>QWidget\<close> that the code touches. \<open>minimumSizeHint\<close> is what the
  widget's virtual \<^verbatim>\<open>minimumSizeHint()\<close> reports; the code only asks the viewer.
\<close>

record QWidget =
  geometry :: QRect
  visible :: bool
  contentsMargins :: QMargins
  mask :: "QRect option"
  mouseNoMask :: bool
  cursor :: CursorShape
  minimumSizeHint :: QSize

definition setGeometry :: "int \<Rightarrow> int \<Rightarrow> int \<Rightarrow> int \<Rightarrow> 'a QWidget_scheme \<Rightarrow> 'a QWidget_scheme" where
  "setGeometry x y w h q = q\<lparr>geometry := \<lparr>rx = x, ry = y, rw = w, rh = h\<rparr>\<rparr>"

definition setContentsMargins :: "int \<Rightarrow> int \<Rightarrow> int \<Rightarrow> int \<Rightarrow> 'a QWidget_scheme \<Rightarrow> 'a QWidget_scheme" where
  "setContentsMargins l t r b q =
     q\<lparr>contentsMargins := \<lparr>mleft = l, mtop = t, mright = r, mbottom = b\<rparr>\<rparr>"

text \<open>\<^verbatim>\<open>contentsRect()\<close>: the widget's own rectangle, in its own coordinates, inside
  the contents margins.\<close>

definition contentsRect :: "'a QWidget_scheme \<Rightarrow> QRect" where
  "contentsRect q =
     (let g = geometry q; m = contentsMargins q
      in \<lparr>rx = mleft m, ry = mtop m,
          rw = rw g - mleft m - mright m, rh = rh g - mtop m - mbottom m\<rparr>)"

definition showW :: "'a QWidget_scheme \<Rightarrow> 'a QWidget_scheme" where
  "showW q = q\<lparr>visible := True\<rparr>"

definition hideW :: "'a QWidget_scheme \<Rightarrow> 'a QWidget_scheme" where
  "hideW q = q\<lparr>visible := False\<rparr>"

text \<open>
  A mouse event carries the position of the pointer relative to the widget that receives
  it (\<^verbatim>\<open>QMouseEvent::pos()\<close>). \<^verbatim>\<open>mapToParent\<close> and \<^verbatim>\<open>mapFromParent\<close> translate
  between the coordinates of a widget and those of its parent by the top left corner of
  the widget's geometry.
\<close>

definition mapToParent :: "'a QWidget_scheme \<Rightarrow> QPoint \<Rightarrow> QPoint" where
  "mapToParent q p = \<lparr>px = px p + rx (geometry q), py = py p + ry (geometry q)\<rparr>"

definition mapFromParent :: "'a QWidget_scheme \<Rightarrow> QPoint \<Rightarrow> QPoint" where
  "mapFromParent q p = \<lparr>px = px p - rx (geometry q), py = py p - ry (geometry q)\<rparr>"

subsection \<open>vgc::core::clamp\<close>

text \<open>
  Modelled from the spec: \<^verbatim>\<open>vgc::core::clamp\<close> is declared in
  \<^verbatim>\<open>vgc/core/algorithm.h\<close>, which is not among the sources. The spec says that a value
  is clamped to \<open>[minimumLength, maximumLength]\<close>: a value below the minimum becomes the
  minimum, a value above the maximum becomes the maximum, any other value is kept. The
  two comparisons are made in this order, as C++17's \<^verbatim>\<open>std::clamp\<close> makes them.

  For \<open>lo \<le> hi\<close> every reading of "clamp" gives this function. For \<open>hi < lo\<close> the spec
  says nothing; the comment in \<^verbatim>\<open>CentralWidget::updateGeometries_\<close> ("we need to run
  the setMaximumLength() functions two times", or else "we end up in an incorrect
  state") is what this order of comparisons produces there, see \<open>clamp_twice_restores\<close>
  below.
\<close>

definition clamp :: "int \<Rightarrow> int \<Rightarrow> int \<Rightarrow> int" where
  "clamp v lo hi = (if v < lo then lo else if hi < v then hi else v)"

subsection \<open>Splitter\<close>

datatype Direction = Right | Left | Top | Bottom

text \<open>
  The fields of \<^verbatim>\<open>Splitter\<close>, which extends \<^verbatim>\<open>QWidget\<close>. The back pointer
  \<^verbatim>\<open>parent_\<close> is not a field: the central widget holds its splitters, and the one
  method that calls the parent, \<^verbatim>\<open>mouseMoveEvent\<close>, is modelled on the central widget.
  \<^verbatim>\<open>lengthOnPress_\<close> and \<^verbatim>\<open>zOnPress_\<close> are not initialised by the constructor: \<open>None\<close>
  is the indeterminate value they hold until a press stores one.
\<close>

record Splitter = QWidget +
  direction :: Direction
  isResizable :: bool
  length_s :: int
  minimumLength :: int
  maximumLength :: int
  centerlineStartPos :: QPoint
  centerlineLength :: int
  grabWidth :: int
  highlightWidth :: int
  isHovered :: bool
  isPressed :: bool
  lengthOnPress :: "int option"
  zOnPress :: "int option"

text \<open>
  Modelled from the spec: \<^verbatim>\<open>Splitter::orientation()\<close> and \<^verbatim>\<open>Splitter::z_\<close> are defined
  in \<^verbatim>\<open>vgc/widgets/centralwidget.h\<close>, which is not among the sources.

  The orientation, in the spec: Left and Right give a divider that spans the height and
  is dragged along the horizontal axis, Top and Bottom one that spans the width and is
  dragged along the vertical axis; \<^verbatim>\<open>Splitter::updateGeometry_\<close> gives the
  \<^verbatim>\<open>Qt::Horizontal\<close> splitter the rectangle that spans the height.

  \<^verbatim>\<open>z_\<close>, in the spec: a press records the coordinate of the pointer projected onto the
  drag axis, and a move computes the offset of the pointer's current coordinate from the
  one at the press, so that a pointer that goes back to where it was pressed has the
  offset 0. The recomputation that follows a move moves the splitter, and the position
  that the source passes to \<^verbatim>\<open>z_\<close>, \<^verbatim>\<open>e->pos()\<close>, is relative to the splitter: the
  coordinate is therefore taken in the frame of the parent, which the splitter does not
  carry along. This is what \<^verbatim>\<open>QSplitterHandle\<close> does, which the comment in the
  constructor of \<^verbatim>\<open>CentralWidget\<close> names as the pattern of the implementation. A \<^verbatim>\<open>z_\<close>
  that projected the position relative to the splitter would measure the pointer
  against the splitter it drags, and the offsets would not be those of the pointer.

  The private methods \<^verbatim>\<open>z_\<close>, \<^verbatim>\<open>setCursor_\<close> and \<^verbatim>\<open>updateGeometry_\<close> of \<^verbatim>\<open>Splitter\<close>
  are \<open>splitter_z\<close>, \<open>splitter_setCursor\<close> and \<open>splitter_updateGeometry\<close> here.
\<close>

definition orientation :: "Splitter \<Rightarrow> Orientation" where
  "orientation s =
     (if direction s = Left \<or> direction s = Right then Horizontal else Vertical)"

definition splitter_z :: "Splitter \<Rightarrow> QPoint \<Rightarrow> int" where
  "splitter_z s p =
     (let q = mapToParent s p in if orientation s = Horizontal then px q else py q)"

definition splitter_setCursor :: "Splitter \<Rightarrow> Splitter" where
  "splitter_setCursor s =
     (if isResizable s
      then s\<lparr>cursor := (if orientation s = Horizontal then SplitHCursor else SplitVCursor)\<rparr>
      else s\<lparr>cursor := ArrowCursor\<rparr>)"

definition splitter_updateGeometry :: "Splitter \<Rightarrow> Splitter" where
  "splitter_updateGeometry s =
     (if isResizable s then
        (let x = px (centerlineStartPos s);
             y = py (centerlineStartPos s);
             l = centerlineLength s;
             hw1 = highlightWidth s sdiv 2;
             hw2 = highlightWidth s - hw1;
             gw1 = grabWidth s sdiv 2;
             gw2 = grabWidth s - gw1;
             s1 = (if orientation s = Horizontal
                   then setGeometry (x - gw1) y (grabWidth s) l s
                   else setGeometry x (y - gw1) l (grabWidth s) s);
             hasMask = (grabWidth s > highlightWidth s);
             s2 = s1\<lparr>mouseNoMask := hasMask\<rparr>
         in if hasMask then
              (let s3 = (if orientation s = Horizontal
                         then setContentsMargins (gw1 - hw1) 0 (gw2 - hw2) 0 s2
                         else setContentsMargins 0 (gw1 - hw1) 0 (gw2 - hw2) s2)
               in s3\<lparr>mask := Some (contentsRect s3)\<rparr>)
            else (setContentsMargins 0 0 0 0 s2)\<lparr>mask := None\<rparr>)
      else (setGeometry 0 0 0 0 s)\<lparr>mouseNoMask := False, mask := None\<rparr>)"

text \<open>
  The constructor. The Qt attributes of a new child widget that the constructor does not
  set itself are Qt's defaults: no contents margins, no mask.
\<close>

definition Splitter_new :: "Direction \<Rightarrow> bool \<Rightarrow> int \<Rightarrow> int \<Rightarrow> int \<Rightarrow> Splitter" where
  "Splitter_new dir resizable len minLen maxLen =
     splitter_updateGeometry (splitter_setCursor
       \<lparr>geometry = \<lparr>rx = 0, ry = 0, rw = 100, rh = 30\<rparr>,
        visible = True,
        contentsMargins = \<lparr>mleft = 0, mtop = 0, mright = 0, mbottom = 0\<rparr>,
        mask = None,
        mouseNoMask = False,
        cursor = ArrowCursor,
        minimumSizeHint = \<lparr>sw = - 1, sh = - 1\<rparr>,
        direction = dir,
        isResizable = resizable,
        length_s = clamp len minLen maxLen,
        minimumLength = minLen,
        maximumLength = maxLen,
        centerlineStartPos = \<lparr>px = 0, py = 0\<rparr>,
        centerlineLength = 0,
        grabWidth = 10,
        highlightWidth = 4,
        isHovered = False,
        isPressed = False,
        lengthOnPress = None,
        zOnPress = None\<rparr>)"

definition setResizable :: "bool \<Rightarrow> Splitter \<Rightarrow> Splitter" where
  "setResizable r s =
     (if isResizable s \<noteq> r
      then splitter_updateGeometry (splitter_setCursor (s\<lparr>isResizable := r\<rparr>))
      else s)"

definition setLength :: "int \<Rightarrow> Splitter \<Rightarrow> Splitter" where
  "setLength len s =
     (let l = clamp len (minimumLength s) (maximumLength s)
      in if length_s s \<noteq> l then splitter_updateGeometry (s\<lparr>length_s := l\<rparr>) else s)"

definition setMinimumLength :: "int \<Rightarrow> Splitter \<Rightarrow> Splitter" where
  "setMinimumLength mn s = (let s1 = s\<lparr>minimumLength := mn\<rparr> in setLength (length_s s1) s1)"

definition setMaximumLength :: "int \<Rightarrow> Splitter \<Rightarrow> Splitter" where
  "setMaximumLength mx s = (let s1 = s\<lparr>maximumLength := mx\<rparr> in setLength (length_s s1) s1)"

definition setLengthRange :: "int \<Rightarrow> int \<Rightarrow> Splitter \<Rightarrow> Splitter" where
  "setLengthRange mn mx s = setMaximumLength mx (setMinimumLength mn s)"

definition setGrabWidth :: "int \<Rightarrow> Splitter \<Rightarrow> Splitter" where
  "setGrabWidth w s =
     (let s1 = s\<lparr>grabWidth := w\<rparr>;
          s2 = (if grabWidth s1 < 0 then s1\<lparr>grabWidth := 0\<rparr> else s1)
      in if grabWidth s2 < highlightWidth s2 then s2\<lparr>highlightWidth := grabWidth s2\<rparr> else s2)"

definition setHighlightWidth :: "int \<Rightarrow> Splitter \<Rightarrow> Splitter" where
  "setHighlightWidth w s =
     (let s1 = s\<lparr>highlightWidth := w\<rparr>;
          s2 = (if highlightWidth s1 < 0 then s1\<lparr>highlightWidth := 0\<rparr> else s1)
      in if grabWidth s2 < highlightWidth s2 then s2\<lparr>grabWidth := highlightWidth s2\<rparr> else s2)"

definition setGeometryFromCenterline :: "int \<Rightarrow> int \<Rightarrow> int \<Rightarrow> Splitter \<Rightarrow> Splitter" where
  "setGeometryFromCenterline x y l s =
     splitter_updateGeometry
       (s\<lparr>centerlineStartPos := \<lparr>px = x, py = y\<rparr>, centerlineLength := l\<rparr>)"

definition event :: "HoverEvent \<Rightarrow> Splitter \<Rightarrow> Splitter" where
  "event e s =
     (case e of
        HoverEnter \<Rightarrow> s\<lparr>isHovered := True\<rparr>
      | HoverLeave \<Rightarrow> s\<lparr>isHovered := False\<rparr>
      | OtherEvent \<Rightarrow> s)"

definition mousePressEvent :: "QMouseEvent \<Rightarrow> Splitter \<Rightarrow> Splitter" where
  "mousePressEvent e s =
     (if button e = LeftButton
      then s\<lparr>isPressed := True,
             lengthOnPress := Some (length_s s),
             zOnPress := Some (splitter_z s (pos e))\<rparr>
      else s)"

definition mouseReleaseEvent :: "QMouseEvent \<Rightarrow> Splitter \<Rightarrow> Splitter" where
  "mouseReleaseEvent e s = (if button e = LeftButton then s\<lparr>isPressed := False\<rparr> else s)"

subsection \<open>CentralWidget\<close>

text \<open>
  \<^verbatim>\<open>splitters_\<close> is a vector that the constructor fills with three splitters and that
  never changes its size afterwards; its elements \<^verbatim>\<open>splitters_[0]\<close>, \<^verbatim>\<open>splitters_[1]\<close>
  and \<^verbatim>\<open>splitters_[2]\<close> are the fields \<open>splitter0\<close>, \<open>splitter1\<close> and \<open>splitter2\<close>.
  \<open>width\<close> and \<open>height\<close> are the size of the central widget itself, which Qt sets before
  it delivers a resize event.
\<close>

record CentralWidget =
  width :: int
  height :: int
  viewer :: QWidget
  toolbar :: QWidget
  console :: QWidget
  panel :: QWidget
  margin :: int
  splitter0 :: Splitter
  splitter1 :: Splitter
  splitter2 :: Splitter

definition QSize_add :: "QSize \<Rightarrow> QSize \<Rightarrow> QSize" where
  "QSize_add a b = \<lparr>sw = sw a + sw b, sh = sh a + sh b\<rparr>"

definition CentralWidget_minimumSizeHint :: "CentralWidget \<Rightarrow> QSize" where
  "CentralWidget_minimumSizeHint cw =
     (let res0 = \<lparr>sw = 2 * margin cw, sh = 2 * margin cw\<rparr>;
          res1 = QSize_add res0 (minimumSizeHint (viewer cw));
          res2 = (if visible (toolbar cw)
                  then QSize_add res1 \<lparr>sw = margin cw + minimumLength (splitter0 cw), sh = 0\<rparr>
                  else res1);
          res3 = (if visible (panel cw)
                  then QSize_add res2 \<lparr>sw = margin cw + minimumLength (splitter1 cw), sh = 0\<rparr>
                  else res2);
          res4 = (if visible (console cw)
                  then QSize_add res3 \<lparr>sw = 0, sh = margin cw + minimumLength (splitter2 cw)\<rparr>
                  else res3)
      in res4)"

text \<open>
  The body of the loop of \<^verbatim>\<open>updateGeometries_\<close>. It reads the local variables
  \<open>x1\<close>, \<open>x2\<close>, \<open>x3\<close>, \<open>x4\<close>, \<open>y1\<close>, \<open>y3\<close>, \<open>M\<close> and \<open>vMinSize\<close>, none of which is
  assigned inside the loop, and changes the three splitters.
\<close>

definition setMaximumLengths ::
  "int \<Rightarrow> int \<Rightarrow> int \<Rightarrow> int \<Rightarrow> int \<Rightarrow> int \<Rightarrow> int \<Rightarrow> QSize
     \<Rightarrow> Splitter \<times> Splitter \<times> Splitter \<Rightarrow> Splitter \<times> Splitter \<times> Splitter" where
  "setMaximumLengths x1 x2 x3 x4 y1 y3 M vMinSize st =
     (case st of (s0, s1, s2) \<Rightarrow>
        (setMaximumLength (x3 - x1 - 2 * M - sw vMinSize) s0,
         setMaximumLength (x4 - x2 - 2 * M - sw vMinSize) s1,
         setMaximumLength (y3 - y1 - 2 * M - sh vMinSize) s2))"

text \<open>\<^verbatim>\<open>for (int i = i0; i < n; ++i) body\<close>\<close>

function for_loop :: "int \<Rightarrow> int \<Rightarrow> ('a \<Rightarrow> 'a) \<Rightarrow> 'a \<Rightarrow> 'a" where
  "for_loop i n body st = (if i < n then for_loop (i + 1) n body (body st) else st)"
  by pat_completeness auto
termination
  by (relation "measure (\<lambda>(i, n, body, st). nat (n - i))") auto

definition updateGeometries :: "CentralWidget \<Rightarrow> CentralWidget" where
  "updateGeometries cw =
     (let M = margin cw;
          m1 = M sdiv 2;
          m2 = M - m1;
          h = height cw;
          w = width cw;
          x1 = m1;
          x4 = w - m2;
          y1 = m1;
          y3 = h - m2;
          x2 = (if visible (toolbar cw) then x1 + (M + length_s (splitter0 cw)) else x1);
          s0 = (if visible (toolbar cw)
                then showW (setGeometryFromCenterline x2 (y1 + m2) (y3 - y1 - M) (splitter0 cw))
                else hideW (splitter0 cw));
          x3 = (if visible (panel cw) then x4 - (M + length_s (splitter1 cw)) else x4);
          s1 = (if visible (panel cw)
                then showW (setGeometryFromCenterline x3 (y1 + m2) (y3 - y1 - M) (splitter1 cw))
                else hideW (splitter1 cw));
          y2 = (if visible (console cw) then y3 - (M + length_s (splitter2 cw)) else y3);
          s2 = (if visible (console cw)
                then showW (setGeometryFromCenterline (x2 + m2) y2 (x3 - x2 - M) (splitter2 cw))
                else hideW (splitter2 cw));
          vMinSize = minimumSizeHint (viewer cw);
          st = for_loop 0 2 (setMaximumLengths x1 x2 x3 x4 y1 y3 M vMinSize) (s0, s1, s2)
      in cw\<lparr>splitter0 := fst st,
            splitter1 := fst (snd st),
            splitter2 := snd (snd st),
            toolbar := setGeometry (x1 + m2) (y1 + m2) (x2 - x1 - M) (y3 - y1 - M) (toolbar cw),
            viewer := setGeometry (x2 + m2) (y1 + m2) (x3 - x2 - M) (y2 - y1 - M) (viewer cw),
            console := setGeometry (x2 + m2) (y2 + m2) (x3 - x2 - M) (y3 - y2 - M) (console cw),
            panel := setGeometry (x3 + m2) (y1 + m2) (x4 - x3 - M) (y3 - y1 - M) (panel cw)\<rparr>)"

text \<open>
  The constructor. The sixth argument of \<^verbatim>\<open>Splitter::Splitter\<close> is left to its default
  in the three calls; the default is declared in \<^verbatim>\<open>vgc/widgets/centralwidget.h\<close>, which
  is not among the sources, and is the parameter \<open>defaultMaximumLength\<close> here. The size
  that the new widget has when the constructor runs is the parameter \<open>size0\<close>.
\<close>

definition CentralWidget_new ::
  "int \<Rightarrow> QSize \<Rightarrow> QWidget \<Rightarrow> QWidget \<Rightarrow> QWidget \<Rightarrow> QWidget \<Rightarrow> CentralWidget" where
  "CentralWidget_new defaultMaximumLength size0 viewer0 toolbar0 console0 panel0 =
     updateGeometries
       \<lparr>width = sw size0,
        height = sh size0,
        viewer = viewer0,
        toolbar = toolbar0,
        console = console0,
        panel = panel0,
        margin = 0,
        splitter0 = Splitter_new Right False 68 68 defaultMaximumLength,
        splitter1 = Splitter_new Left True 200 200 defaultMaximumLength,
        splitter2 = Splitter_new Top True 200 50 defaultMaximumLength\<rparr>"

definition resizeEvent :: "QSize \<Rightarrow> CentralWidget \<Rightarrow> CentralWidget" where
  "resizeEvent newSize cw = updateGeometries (cw\<lparr>width := sw newSize, height := sh newSize\<rparr>)"

text \<open>
  Modelled from the spec: \<^verbatim>\<open>ToggleViewAction\<close> is declared in
  \<^verbatim>\<open>vgc/widgets/toggleviewaction.h\<close>, which is not among the sources. The constructor
  connects the \<^verbatim>\<open>toggled(bool)\<close> signal of the console's and of the panel's action to
  \<^verbatim>\<open>updateGeometries_\<close>; the spec: a region's visibility setter sets the visibility and
  triggers a recomputation of the geometry. The source has no such action for the
  toolbar; \<open>toggled Toolbar\<close> follows the spec, which treats the three alike.
\<close>

datatype Satellite = Toolbar | Panel | Console

definition toggled :: "Satellite \<Rightarrow> bool \<Rightarrow> CentralWidget \<Rightarrow> CentralWidget" where
  "toggled r b cw =
     updateGeometries
       (case r of
          Toolbar \<Rightarrow> cw\<lparr>toolbar := (toolbar cw)\<lparr>visible := b\<rparr>\<rparr>
        | Panel \<Rightarrow> cw\<lparr>panel := (panel cw)\<lparr>visible := b\<rparr>\<rparr>
        | Console \<Rightarrow> cw\<lparr>console := (console cw)\<lparr>visible := b\<rparr>\<rparr>)"

text \<open>
  The events of a splitter, delivered to the central widget that holds it.
  \<^verbatim>\<open>Splitter::mouseMoveEvent\<close> assigns \<^verbatim>\<open>length_\<close> (\<open>dragLength\<close> is that part of it) and
  then calls \<^verbatim>\<open>parent_->updateGeometries_()\<close>. It reads \<^verbatim>\<open>lengthOnPress_\<close> and
  \<^verbatim>\<open>zOnPress_\<close>: the result is \<open>None\<close> when they are indeterminate.
\<close>

datatype SplitterId = Splitter0 | Splitter1 | Splitter2

definition splitters :: "CentralWidget \<Rightarrow> SplitterId \<Rightarrow> Splitter" where
  "splitters cw i =
     (case i of Splitter0 \<Rightarrow> splitter0 cw | Splitter1 \<Rightarrow> splitter1 cw | Splitter2 \<Rightarrow> splitter2 cw)"

definition splitters_update :: "SplitterId \<Rightarrow> Splitter \<Rightarrow> CentralWidget \<Rightarrow> CentralWidget" where
  "splitters_update i s cw =
     (case i of
        Splitter0 \<Rightarrow> cw\<lparr>splitter0 := s\<rparr>
      | Splitter1 \<Rightarrow> cw\<lparr>splitter1 := s\<rparr>
      | Splitter2 \<Rightarrow> cw\<lparr>splitter2 := s\<rparr>)"

definition dragLength :: "QMouseEvent \<Rightarrow> Splitter \<Rightarrow> Splitter option" where
  "dragLength e s =
     (case (lengthOnPress s, zOnPress s) of
        (Some lengthOnPress0, Some zOnPress0) \<Rightarrow>
          (let offset = splitter_z s (pos e) - zOnPress0;
               s1 = (if direction s = Right \<or> direction s = Bottom
                     then s\<lparr>length_s := lengthOnPress0 + offset\<rparr>
                     else s\<lparr>length_s := lengthOnPress0 - offset\<rparr>)
           in Some (s1\<lparr>length_s := clamp (length_s s1) (minimumLength s1) (maximumLength s1)\<rparr>))
      | _ \<Rightarrow> None)"

definition mouseMoveEvent :: "SplitterId \<Rightarrow> QMouseEvent \<Rightarrow> CentralWidget \<Rightarrow> CentralWidget option" where
  "mouseMoveEvent i e cw =
     (if LeftButton \<in> buttons e
      then (case dragLength e (splitters cw i) of
              Some s \<Rightarrow> Some (updateGeometries (splitters_update i s cw))
            | None \<Rightarrow> None)
      else Some cw)"

definition pressed :: "SplitterId \<Rightarrow> QMouseEvent \<Rightarrow> CentralWidget \<Rightarrow> CentralWidget" where
  "pressed i e cw = splitters_update i (mousePressEvent e (splitters cw i)) cw"

definition released :: "SplitterId \<Rightarrow> QMouseEvent \<Rightarrow> CentralWidget \<Rightarrow> CentralWidget" where
  "released i e cw = splitters_update i (mouseReleaseEvent e (splitters cw i)) cw"

subsection \<open>The recomputation with a single pass of the loop\<close>

text \<open>
  \<^verbatim>\<open>updateGeometries_\<close> with the body of its loop run once instead of twice
  (\<^verbatim>\<open>i < 1\<close> for \<^verbatim>\<open>i < 2\<close>) and nothing else changed. The source has no such function;
  it is what the two-pass loop is compared with.
\<close>

definition updateGeometries_onePass :: "CentralWidget \<Rightarrow> CentralWidget" where
  "updateGeometries_onePass cw =
     (let M = margin cw;
          m1 = M sdiv 2;
          m2 = M - m1;
          h = height cw;
          w = width cw;
          x1 = m1;
          x4 = w - m2;
          y1 = m1;
          y3 = h - m2;
          x2 = (if visible (toolbar cw) then x1 + (M + length_s (splitter0 cw)) else x1);
          s0 = (if visible (toolbar cw)
                then showW (setGeometryFromCenterline x2 (y1 + m2) (y3 - y1 - M) (splitter0 cw))
                else hideW (splitter0 cw));
          x3 = (if visible (panel cw) then x4 - (M + length_s (splitter1 cw)) else x4);
          s1 = (if visible (panel cw)
                then showW (setGeometryFromCenterline x3 (y1 + m2) (y3 - y1 - M) (splitter1 cw))
                else hideW (splitter1 cw));
          y2 = (if visible (console cw) then y3 - (M + length_s (splitter2 cw)) else y3);
          s2 = (if visible (console cw)
                then showW (setGeometryFromCenterline (x2 + m2) y2 (x3 - x2 - M) (splitter2 cw))
                else hideW (splitter2 cw));
          vMinSize = minimumSizeHint (viewer cw);
          st = for_loop 0 1 (setMaximumLengths x1 x2 x3 x4 y1 y3 M vMinSize) (s0, s1, s2)
      in cw\<lparr>splitter0 := fst st,
            splitter1 := fst (snd st),
            splitter2 := snd (snd st),
            toolbar := setGeometry (x1 + m2) (y1 + m2) (x2 - x1 - M) (y3 - y1 - M) (toolbar cw),
            viewer := setGeometry (x2 + m2) (y1 + m2) (x3 - x2 - M) (y2 - y1 - M) (viewer cw),
            console := setGeometry (x2 + m2) (y2 + m2) (x3 - x2 - M) (y3 - y2 - M) (console cw),
            panel := setGeometry (x3 + m2) (y1 + m2) (x4 - x3 - M) (y3 - y1 - M) (panel cw)\<rparr>)"

subsection \<open>Notions used in the statements\<close>

text \<open>A rectangle has non-negative extents.\<close>

definition nonNegative :: "QRect \<Rightarrow> bool" where
  "nonNegative r = (0 \<le> rw r \<and> 0 \<le> rh r)"

text \<open>
  The space that a satellite takes from the viewer along its axis: the margin and the
  length of its splitter when it is visible, nothing when it is hidden. In
  \<^verbatim>\<open>updateGeometries_\<close> these are \<open>x2 - x1\<close>, \<open>x4 - x3\<close> and \<open>y3 - y2\<close>.
\<close>

definition toolbarExtent :: "CentralWidget \<Rightarrow> int" where
  "toolbarExtent cw = (if visible (toolbar cw) then margin cw + length_s (splitter0 cw) else 0)"

definition panelExtent :: "CentralWidget \<Rightarrow> int" where
  "panelExtent cw = (if visible (panel cw) then margin cw + length_s (splitter1 cw) else 0)"

definition consoleExtent :: "CentralWidget \<Rightarrow> int" where
  "consoleExtent cw = (if visible (console cw) then margin cw + length_s (splitter2 cw) else 0)"

text \<open>What \<^verbatim>\<open>updateGeometries_\<close> does to one splitter before the loop, and the two
  calls of \<^verbatim>\<open>setMaximumLength\<close> that the loop makes on it.\<close>

definition placeSplitter :: "bool \<Rightarrow> int \<Rightarrow> int \<Rightarrow> int \<Rightarrow> Splitter \<Rightarrow> Splitter" where
  "placeSplitter vis x y l s =
     (if vis then showW (setGeometryFromCenterline x y l s) else hideW s)"

definition setMaximumLengthTwice :: "int \<Rightarrow> Splitter \<Rightarrow> Splitter" where
  "setMaximumLengthTwice a s = setMaximumLength a (setMaximumLength a s)"

definition satellite :: "Satellite \<Rightarrow> CentralWidget \<Rightarrow> QWidget" where
  "satellite r cw =
     (case r of Toolbar \<Rightarrow> toolbar cw | Panel \<Rightarrow> panel cw | Console \<Rightarrow> console cw)"

text \<open>
  The coordinate of a point of the central widget along the drag axis of a splitter, and
  the mouse event that a splitter receives when the pointer is at a point of the central
  widget: its position is relative to the splitter's geometry at that moment.
\<close>

definition axisCoordinate :: "Splitter \<Rightarrow> QPoint \<Rightarrow> int" where
  "axisCoordinate s p = (if orientation s = Horizontal then px p else py p)"

definition pointerEvent ::
  "Splitter \<Rightarrow> QPoint \<Rightarrow> MouseButton \<Rightarrow> MouseButton set \<Rightarrow> QMouseEvent" where
  "pointerEvent s p b bs = \<lparr>pos = mapFromParent s p, button = b, buttons = bs\<rparr>"

text \<open>Calls of \<^verbatim>\<open>setGrabWidth\<close> and \<^verbatim>\<open>setHighlightWidth\<close>, to speak about sequences of
  them.\<close>

datatype WidthCall = SetGrabWidth int | SetHighlightWidth int

fun widthCall :: "Splitter \<Rightarrow> WidthCall \<Rightarrow> Splitter" where
  "widthCall s (SetGrabWidth w) = setGrabWidth w s"
| "widthCall s (SetHighlightWidth w) = setHighlightWidth w s"

definition widthsOrdered :: "Splitter \<Rightarrow> bool" where
  "widthsOrdered s = (highlightWidth s \<le> grabWidth s \<and> 0 \<le> highlightWidth s)"

subsection \<open>Example states\<close>

text \<open>
  A content widget with Qt's initial geometry, and a mouse event with the left button at
  a position relative to the widget that receives it.
  \<open>example_initial\<close> is a central widget constructed at 1000 by 800 around four visible
  widgets with no minimum size (\<open>2147483647\<close> is the largest \<^verbatim>\<open>int\<close>), \<open>example_dragged\<close>
  is that widget after the panel's splitter, which lies at 795, was pressed with the
  pointer at 800 and dragged 300 to the left,
  \<open>example_returned\<close> is the latter after the pointer was moved back to 800,
  \<open>example_shrunk\<close> is \<open>example_dragged\<close> after the window was resized to 400 by 800.
  \<open>example_no_toolbar\<close> is constructed like \<open>example_initial\<close> around a hidden toolbar,
  \<open>example_small\<close> at 100 by 30, the size that Qt gives a new child widget.
  \<open>example_hidden_panel\<close> is a central widget constructed with a hidden panel at the
  size of its own minimum-size hint, 468 by 350; \<open>example_panel_requested\<close> is that
  widget when its panel has been made visible and \<^verbatim>\<open>updateGeometries_\<close> is about to run.
\<close>

definition contentWidget :: "bool \<Rightarrow> QSize \<Rightarrow> QWidget" where
  "contentWidget vis hint =
     \<lparr>geometry = \<lparr>rx = 0, ry = 0, rw = 100, rh = 30\<rparr>,
      visible = vis,
      contentsMargins = \<lparr>mleft = 0, mtop = 0, mright = 0, mbottom = 0\<rparr>,
      mask = None,
      mouseNoMask = False,
      cursor = ArrowCursor,
      minimumSizeHint = hint\<rparr>"

definition leftButtonAt :: "int \<Rightarrow> int \<Rightarrow> QMouseEvent" where
  "leftButtonAt x y =
     \<lparr>pos = \<lparr>px = x, py = y\<rparr>, button = LeftButton, buttons = {LeftButton}\<rparr>"

definition example_initial :: CentralWidget where
  "example_initial =
     CentralWidget_new 2147483647 \<lparr>sw = 1000, sh = 800\<rparr>
       (contentWidget True \<lparr>sw = 0, sh = 0\<rparr>) (contentWidget True \<lparr>sw = 0, sh = 0\<rparr>)
       (contentWidget True \<lparr>sw = 0, sh = 0\<rparr>) (contentWidget True \<lparr>sw = 0, sh = 0\<rparr>)"

definition example_dragged :: CentralWidget where
  "example_dragged =
     the (mouseMoveEvent Splitter1 (leftButtonAt (- 295) 7)
            (pressed Splitter1 (leftButtonAt 5 7) example_initial))"

definition example_returned :: CentralWidget where
  "example_returned =
     the (mouseMoveEvent Splitter1
            (pointerEvent (splitter1 example_dragged) \<lparr>px = 800, py = 7\<rparr> LeftButton
               {LeftButton})
            example_dragged)"

definition example_shrunk :: CentralWidget where
  "example_shrunk = resizeEvent \<lparr>sw = 400, sh = 800\<rparr> example_dragged"

definition example_no_toolbar :: CentralWidget where
  "example_no_toolbar =
     CentralWidget_new 2147483647 \<lparr>sw = 1000, sh = 800\<rparr>
       (contentWidget True \<lparr>sw = 0, sh = 0\<rparr>) (contentWidget False \<lparr>sw = 0, sh = 0\<rparr>)
       (contentWidget True \<lparr>sw = 0, sh = 0\<rparr>) (contentWidget True \<lparr>sw = 0, sh = 0\<rparr>)"

definition example_small :: CentralWidget where
  "example_small =
     CentralWidget_new 2147483647 \<lparr>sw = 100, sh = 30\<rparr>
       (contentWidget True \<lparr>sw = 0, sh = 0\<rparr>) (contentWidget True \<lparr>sw = 0, sh = 0\<rparr>)
       (contentWidget True \<lparr>sw = 0, sh = 0\<rparr>) (contentWidget True \<lparr>sw = 0, sh = 0\<rparr>)"

definition example_hidden_panel :: CentralWidget where
  "example_hidden_panel =
     CentralWidget_new 2147483647 \<lparr>sw = 468, sh = 350\<rparr>
       (contentWidget True \<lparr>sw = 400, sh = 300\<rparr>) (contentWidget True \<lparr>sw = 0, sh = 0\<rparr>)
       (contentWidget True \<lparr>sw = 0, sh = 0\<rparr>) (contentWidget False \<lparr>sw = 0, sh = 0\<rparr>)"

definition example_panel_requested :: CentralWidget where
  "example_panel_requested =
     example_hidden_panel\<lparr>panel := (panel example_hidden_panel)\<lparr>visible := True\<rparr>\<rparr>"

section \<open>Properties\<close>

subsection \<open>Clamping\<close>

lemma clamp_within: "lo \<le> hi \<Longrightarrow> lo \<le> clamp v lo hi \<and> clamp v lo hi \<le> hi"
  by (simp add: clamp_def)

lemma clamp_inside: "lo \<le> v \<Longrightarrow> v \<le> hi \<Longrightarrow> clamp v lo hi = v"
  by (simp add: clamp_def)

lemma clamp_clamp: "lo \<le> hi \<Longrightarrow> clamp (clamp v lo hi) lo hi = clamp v lo hi"
  by (simp add: clamp_def)

text \<open>
  With a maximum below the minimum, clamping is not idempotent: a length at the minimum
  goes to the maximum, and a second clamping brings it back. This is why a single pass
  of the loop of \<^verbatim>\<open>updateGeometries_\<close> would leave the splitters of a window at its
  minimum size "in an incorrect state", as the comment there says.
\<close>

lemma clamp_twice_restores: "hi < lo \<Longrightarrow> clamp lo lo hi = hi \<and> clamp (clamp lo lo hi) lo hi = lo"
  by (simp add: clamp_def)

subsection \<open>The geometry of a splitter\<close>

lemmas splitter_geometry_defs =
  setGeometryFromCenterline_def splitter_updateGeometry_def Let_def setGeometry_def
  setContentsMargins_def contentsRect_def orientation_def

lemma splitter_updateGeometry_fields [simp]:
  "direction (splitter_updateGeometry s) = direction s"
  "isResizable (splitter_updateGeometry s) = isResizable s"
  "length_s (splitter_updateGeometry s) = length_s s"
  "minimumLength (splitter_updateGeometry s) = minimumLength s"
  "maximumLength (splitter_updateGeometry s) = maximumLength s"
  "grabWidth (splitter_updateGeometry s) = grabWidth s"
  "highlightWidth (splitter_updateGeometry s) = highlightWidth s"
  "lengthOnPress (splitter_updateGeometry s) = lengthOnPress s"
  "zOnPress (splitter_updateGeometry s) = zOnPress s"
  "visible (splitter_updateGeometry s) = visible s"
  by (simp_all add: splitter_geometry_defs)

lemma splitter_updateGeometry_idem:
  "splitter_updateGeometry (splitter_updateGeometry s) = splitter_updateGeometry s"
  by (cases "isResizable s"; cases "highlightWidth s < grabWidth s";
      cases "direction s = Left \<or> direction s = Right")
     (simp_all add: splitter_geometry_defs)

lemma splitter_updateGeometry_length:
  "splitter_updateGeometry (s\<lparr>length_s := v\<rparr>) = (splitter_updateGeometry s)\<lparr>length_s := v\<rparr>"
  by (cases "isResizable s"; cases "highlightWidth s < grabWidth s";
      cases "direction s = Left \<or> direction s = Right")
     (simp_all add: splitter_geometry_defs)

lemma splitter_updateGeometry_max:
  "splitter_updateGeometry (s\<lparr>maximumLength := v\<rparr>)
     = (splitter_updateGeometry s)\<lparr>maximumLength := v\<rparr>"
  by (cases "isResizable s"; cases "highlightWidth s < grabWidth s";
      cases "direction s = Left \<or> direction s = Right")
     (simp_all add: splitter_geometry_defs)

lemma splitter_updateGeometry_visible:
  "splitter_updateGeometry (s\<lparr>visible := v\<rparr>) = (splitter_updateGeometry s)\<lparr>visible := v\<rparr>"
  by (cases "isResizable s"; cases "highlightWidth s < grabWidth s";
      cases "direction s = Left \<or> direction s = Right")
     (simp_all add: splitter_geometry_defs)

lemma centerline_after_updateGeometry:
  "setGeometryFromCenterline x y l (splitter_updateGeometry s) = setGeometryFromCenterline x y l s"
  by (cases "isResizable s"; cases "highlightWidth s < grabWidth s";
      cases "direction s = Left \<or> direction s = Right")
     (simp_all add: splitter_geometry_defs)

lemma centerline_after_centerline:
  "setGeometryFromCenterline x y l (setGeometryFromCenterline x' y' l' s)
     = setGeometryFromCenterline x y l s"
  by (cases "isResizable s"; cases "highlightWidth s < grabWidth s";
      cases "direction s = Left \<or> direction s = Right")
     (simp_all add: splitter_geometry_defs)

lemma centerline_max:
  "setGeometryFromCenterline x y l (s\<lparr>maximumLength := v\<rparr>)
     = (setGeometryFromCenterline x y l s)\<lparr>maximumLength := v\<rparr>"
  by (cases "isResizable s"; cases "highlightWidth s < grabWidth s";
      cases "direction s = Left \<or> direction s = Right")
     (simp_all add: splitter_geometry_defs)

lemma centerline_visible:
  "setGeometryFromCenterline x y l (s\<lparr>visible := v\<rparr>)
     = (setGeometryFromCenterline x y l s)\<lparr>visible := v\<rparr>"
  by (cases "isResizable s"; cases "highlightWidth s < grabWidth s";
      cases "direction s = Left \<or> direction s = Right")
     (simp_all add: splitter_geometry_defs)

lemma updateGeometry_after_centerline:
  "splitter_updateGeometry (setGeometryFromCenterline x y l s) = setGeometryFromCenterline x y l s"
  by (simp add: setGeometryFromCenterline_def splitter_updateGeometry_idem)

lemma setGeometryFromCenterline_fields [simp]:
  "direction (setGeometryFromCenterline x y l s) = direction s"
  "length_s (setGeometryFromCenterline x y l s) = length_s s"
  "minimumLength (setGeometryFromCenterline x y l s) = minimumLength s"
  "maximumLength (setGeometryFromCenterline x y l s) = maximumLength s"
  "lengthOnPress (setGeometryFromCenterline x y l s) = lengthOnPress s"
  "zOnPress (setGeometryFromCenterline x y l s) = zOnPress s"
  "visible (setGeometryFromCenterline x y l s) = visible s"
  by (simp_all add: setGeometryFromCenterline_def)

subsection \<open>The length of a splitter and its bounds\<close>

lemma setLength_fields [simp]:
  "direction (setLength v s) = direction s"
  "length_s (setLength v s) = clamp v (minimumLength s) (maximumLength s)"
  "minimumLength (setLength v s) = minimumLength s"
  "maximumLength (setLength v s) = maximumLength s"
  "lengthOnPress (setLength v s) = lengthOnPress s"
  "zOnPress (setLength v s) = zOnPress s"
  by (simp_all add: setLength_def Let_def)

lemma Splitter_new_fields [simp]:
  "direction (Splitter_new d r l mn mx) = d"
  "isResizable (Splitter_new d r l mn mx) = r"
  "length_s (Splitter_new d r l mn mx) = clamp l mn mx"
  "minimumLength (Splitter_new d r l mn mx) = mn"
  "maximumLength (Splitter_new d r l mn mx) = mx"
  "grabWidth (Splitter_new d r l mn mx) = 10"
  "highlightWidth (Splitter_new d r l mn mx) = 4"
  by (simp_all add: Splitter_new_def splitter_setCursor_def)

lemma setMaximumLength_eq:
  "setMaximumLength a s =
     (if clamp (length_s s) (minimumLength s) a = length_s s then s\<lparr>maximumLength := a\<rparr>
      else (splitter_updateGeometry (s\<lparr>maximumLength := a\<rparr>))
             \<lparr>length_s := clamp (length_s s) (minimumLength s) a\<rparr>)"
  by (auto simp add: setMaximumLength_def setLength_def Let_def splitter_updateGeometry_length)

lemma setMaximumLength_fields [simp]:
  "direction (setMaximumLength a s) = direction s"
  "length_s (setMaximumLength a s) = clamp (length_s s) (minimumLength s) a"
  "minimumLength (setMaximumLength a s) = minimumLength s"
  "maximumLength (setMaximumLength a s) = a"
  "lengthOnPress (setMaximumLength a s) = lengthOnPress s"
  "zOnPress (setMaximumLength a s) = zOnPress s"
  "visible (setMaximumLength a s) = visible s"
  by (simp_all add: setMaximumLength_eq)

lemma setMinimumLength_fields [simp]:
  "length_s (setMinimumLength a s) = clamp (length_s s) a (maximumLength s)"
  "minimumLength (setMinimumLength a s) = a"
  "maximumLength (setMinimumLength a s) = maximumLength s"
  by (simp_all add: setMinimumLength_def Let_def)

lemma setMaximumLength_max:
  "setMaximumLength a (s\<lparr>maximumLength := a'\<rparr>) = setMaximumLength a s"
  by (simp add: setMaximumLength_def)

lemma setMaximumLength_again:
  assumes "minimumLength s \<le> a"
  shows "setMaximumLength a (setMaximumLength a s) = setMaximumLength a s"
proof -
  have "clamp (length_s (setMaximumLength a s)) (minimumLength (setMaximumLength a s)) a
          = length_s (setMaximumLength a s)"
    using assms by (simp add: clamp_clamp)
  then have "setMaximumLength a (setMaximumLength a s)
          = (setMaximumLength a s)\<lparr>maximumLength := a\<rparr>"
    by (simp add: setMaximumLength_eq [of a "setMaximumLength a s"])
  also have "\<dots> = setMaximumLength a s"
    by (simp add: setMaximumLength_eq)
  finally show ?thesis .
qed

lemma setMaximumLengthTwice_fields [simp]:
  "direction (setMaximumLengthTwice a s) = direction s"
  "length_s (setMaximumLengthTwice a s)
     = clamp (clamp (length_s s) (minimumLength s) a) (minimumLength s) a"
  "minimumLength (setMaximumLengthTwice a s) = minimumLength s"
  "maximumLength (setMaximumLengthTwice a s) = a"
  "lengthOnPress (setMaximumLengthTwice a s) = lengthOnPress s"
  "zOnPress (setMaximumLengthTwice a s) = zOnPress s"
  "visible (setMaximumLengthTwice a s) = visible s"
  by (simp_all add: setMaximumLengthTwice_def)

lemma setMaximumLengthTwice_eq:
  assumes "clamp (clamp (length_s s) (minimumLength s) a) (minimumLength s) a = length_s s"
  shows "setMaximumLengthTwice a s =
     (if clamp (length_s s) (minimumLength s) a = length_s s then s\<lparr>maximumLength := a\<rparr>
      else splitter_updateGeometry (s\<lparr>maximumLength := a\<rparr>))"
  using assms
  by (simp add: setMaximumLengthTwice_def setMaximumLength_eq splitter_updateGeometry_length
      splitter_updateGeometry_max splitter_updateGeometry_idem)

subsection \<open>Placing a splitter\<close>

lemma placeSplitter_fields [simp]:
  "direction (placeSplitter vis x y l s) = direction s"
  "length_s (placeSplitter vis x y l s) = length_s s"
  "minimumLength (placeSplitter vis x y l s) = minimumLength s"
  "maximumLength (placeSplitter vis x y l s) = maximumLength s"
  "lengthOnPress (placeSplitter vis x y l s) = lengthOnPress s"
  "zOnPress (placeSplitter vis x y l s) = zOnPress s"
  "visible (placeSplitter vis x y l s) = vis"
  by (simp_all add: placeSplitter_def showW_def hideW_def)

lemma placeSplitter_max:
  "placeSplitter vis x y l (s\<lparr>maximumLength := a\<rparr>)
     = (placeSplitter vis x y l s)\<lparr>maximumLength := a\<rparr>"
  by (simp add: placeSplitter_def showW_def hideW_def centerline_max)

lemma placeSplitter_after:
  "v \<or> \<not> v' \<Longrightarrow>
   placeSplitter v x y l (placeSplitter v' x' y' l' s) = placeSplitter v x y l s"
  by (auto simp add: placeSplitter_def showW_def hideW_def centerline_after_centerline
      centerline_visible)

lemma placeSplitter_updateGeometry:
  "placeSplitter vis x y l (splitter_updateGeometry (placeSplitter vis x y l s))
     = splitter_updateGeometry (placeSplitter vis x y l s)"
  by (simp add: placeSplitter_def showW_def hideW_def centerline_after_centerline
      centerline_visible centerline_after_updateGeometry splitter_updateGeometry_visible
      updateGeometry_after_centerline)

lemma placed_twice_idem:
  assumes "clamp (clamp (length_s s) (minimumLength s) a) (minimumLength s) a = length_s s"
  shows "setMaximumLengthTwice a (placeSplitter vis x y l
           (setMaximumLengthTwice a (placeSplitter vis x y l s)))
         = setMaximumLengthTwice a (placeSplitter vis x y l s)"
proof -
  let ?P = "placeSplitter vis x y l s"
  have c: "clamp (clamp (length_s ?P) (minimumLength ?P) a) (minimumLength ?P) a = length_s ?P"
    using assms by simp
  show ?thesis
  proof (cases "clamp (length_s s) (minimumLength s) a = length_s s")
    case True
    then have T: "setMaximumLengthTwice a ?P = ?P\<lparr>maximumLength := a\<rparr>"
      using setMaximumLengthTwice_eq [OF c] by simp
    have "placeSplitter vis x y l (?P\<lparr>maximumLength := a\<rparr>) = ?P\<lparr>maximumLength := a\<rparr>"
      by (simp add: placeSplitter_max placeSplitter_after)
    moreover have "setMaximumLengthTwice a (?P\<lparr>maximumLength := a\<rparr>) = ?P\<lparr>maximumLength := a\<rparr>"
      using True by (subst setMaximumLengthTwice_eq) simp_all
    ultimately show ?thesis
      by (simp add: T)
  next
    case False
    let ?T = "splitter_updateGeometry (?P\<lparr>maximumLength := a\<rparr>)"
    from False have T: "setMaximumLengthTwice a ?P = ?T"
      using setMaximumLengthTwice_eq [OF c] by simp
    have "placeSplitter vis x y l ?T = ?T"
      by (simp add: splitter_updateGeometry_max placeSplitter_max placeSplitter_updateGeometry)
    moreover have "setMaximumLengthTwice a ?T = ?T"
      using False assms
      by (subst setMaximumLengthTwice_eq)
         (simp_all add: splitter_updateGeometry_max splitter_updateGeometry_idem)
    ultimately show ?thesis
      by (simp add: T)
  qed
qed

lemma placed_after_unclamped:
  assumes "minimumLength s \<le> length_s s" and "length_s s \<le> a'" and "v \<or> \<not> v'"
  shows "setMaximumLengthTwice a (placeSplitter v x y l
           (setMaximumLengthTwice a' (placeSplitter v' x' y' l' s)))
         = setMaximumLengthTwice a (placeSplitter v x y l s)"
proof -
  let ?P = "placeSplitter v' x' y' l' s"
  have "clamp (length_s ?P) (minimumLength ?P) a' = length_s ?P"
    using assms by (simp add: clamp_def)
  then have "setMaximumLengthTwice a' ?P = ?P\<lparr>maximumLength := a'\<rparr>"
    by (simp add: setMaximumLengthTwice_def setMaximumLength_eq)
  then show ?thesis
    using assms(3)
    by (simp add: placeSplitter_max placeSplitter_after setMaximumLengthTwice_def
        setMaximumLength_max)
qed

subsection \<open>What a recomputation assigns\<close>

lemma for_loop_0_2: "for_loop 0 2 body st = body (body st)"
  by (simp add: for_loop.simps [of 0] for_loop.simps [of 1] for_loop.simps [of 2])

lemma for_loop_0_1: "for_loop 0 1 body st = body st"
  by (simp add: for_loop.simps [of 0] for_loop.simps [of 1])

lemma updateGeometries_unchanged [simp]:
  "width (updateGeometries cw) = width cw"
  "height (updateGeometries cw) = height cw"
  "margin (updateGeometries cw) = margin cw"
  by (simp_all add: updateGeometries_def Let_def)

lemma updateGeometries_regions:
  "toolbar (updateGeometries cw) =
     setGeometry (margin cw) (margin cw) (toolbarExtent cw - margin cw)
       (height cw - 2 * margin cw) (toolbar cw)"
  "viewer (updateGeometries cw) =
     setGeometry (margin cw + toolbarExtent cw) (margin cw)
       (width cw - 2 * margin cw - toolbarExtent cw - panelExtent cw)
       (height cw - 2 * margin cw - consoleExtent cw) (viewer cw)"
  "console (updateGeometries cw) =
     setGeometry (margin cw + toolbarExtent cw) (height cw - consoleExtent cw)
       (width cw - 2 * margin cw - toolbarExtent cw - panelExtent cw)
       (consoleExtent cw - margin cw) (console cw)"
  "panel (updateGeometries cw) =
     setGeometry (width cw - panelExtent cw) (margin cw) (panelExtent cw - margin cw)
       (height cw - 2 * margin cw) (panel cw)"
  by (simp_all add: updateGeometries_def Let_def toolbarExtent_def panelExtent_def
      consoleExtent_def setGeometry_def)

lemma updateGeometries_splitters:
  "splitter0 (updateGeometries cw) =
     setMaximumLengthTwice
       (width cw - 3 * margin cw - panelExtent cw - sw (minimumSizeHint (viewer cw)))
       (placeSplitter (visible (toolbar cw)) (margin cw sdiv 2 + toolbarExtent cw) (margin cw)
          (height cw - 2 * margin cw) (splitter0 cw))"
  "splitter1 (updateGeometries cw) =
     setMaximumLengthTwice
       (width cw - 3 * margin cw - toolbarExtent cw - sw (minimumSizeHint (viewer cw)))
       (placeSplitter (visible (panel cw))
          (width cw - (margin cw - margin cw sdiv 2) - panelExtent cw) (margin cw)
          (height cw - 2 * margin cw) (splitter1 cw))"
  "splitter2 (updateGeometries cw) =
     setMaximumLengthTwice
       (height cw - 3 * margin cw - sh (minimumSizeHint (viewer cw)))
       (placeSplitter (visible (console cw)) (margin cw + toolbarExtent cw)
          (height cw - (margin cw - margin cw sdiv 2) - consoleExtent cw)
          (width cw - 2 * margin cw - toolbarExtent cw - panelExtent cw) (splitter2 cw))"
  by (simp_all add: updateGeometries_def Let_def toolbarExtent_def panelExtent_def
      consoleExtent_def for_loop_0_2 setMaximumLengths_def setMaximumLengthTwice_def
      placeSplitter_def algebra_simps)

lemma updateGeometries_onePass_splitters:
  "splitter0 (updateGeometries_onePass cw) =
     setMaximumLength
       (width cw - 3 * margin cw - panelExtent cw - sw (minimumSizeHint (viewer cw)))
       (placeSplitter (visible (toolbar cw)) (margin cw sdiv 2 + toolbarExtent cw) (margin cw)
          (height cw - 2 * margin cw) (splitter0 cw))"
  "splitter1 (updateGeometries_onePass cw) =
     setMaximumLength
       (width cw - 3 * margin cw - toolbarExtent cw - sw (minimumSizeHint (viewer cw)))
       (placeSplitter (visible (panel cw))
          (width cw - (margin cw - margin cw sdiv 2) - panelExtent cw) (margin cw)
          (height cw - 2 * margin cw) (splitter1 cw))"
  "splitter2 (updateGeometries_onePass cw) =
     setMaximumLength
       (height cw - 3 * margin cw - sh (minimumSizeHint (viewer cw)))
       (placeSplitter (visible (console cw)) (margin cw + toolbarExtent cw)
          (height cw - (margin cw - margin cw sdiv 2) - consoleExtent cw)
          (width cw - 2 * margin cw - toolbarExtent cw - panelExtent cw) (splitter2 cw))"
  by (simp_all add: updateGeometries_onePass_def Let_def toolbarExtent_def panelExtent_def
      consoleExtent_def for_loop_0_1 setMaximumLengths_def placeSplitter_def algebra_simps)

lemma updateGeometries_onePass_regions:
  "toolbar (updateGeometries_onePass cw) = toolbar (updateGeometries cw)"
  "viewer (updateGeometries_onePass cw) = viewer (updateGeometries cw)"
  "console (updateGeometries_onePass cw) = console (updateGeometries cw)"
  "panel (updateGeometries_onePass cw) = panel (updateGeometries cw)"
  by (simp_all add: updateGeometries_onePass_def updateGeometries_def Let_def)

lemma maximumLength_updateGeometries:
  "maximumLength (splitter0 (updateGeometries cw)) =
     width cw - 3 * margin cw - panelExtent cw - sw (minimumSizeHint (viewer cw))"
  "maximumLength (splitter1 (updateGeometries cw)) =
     width cw - 3 * margin cw - toolbarExtent cw - sw (minimumSizeHint (viewer cw))"
  "maximumLength (splitter2 (updateGeometries cw)) =
     height cw - 3 * margin cw - sh (minimumSizeHint (viewer cw))"
  by (simp_all add: updateGeometries_splitters)

lemma extents_updateGeometries:
  assumes "length_s (splitter0 (updateGeometries cw)) = length_s (splitter0 cw)"
    and "length_s (splitter1 (updateGeometries cw)) = length_s (splitter1 cw)"
    and "length_s (splitter2 (updateGeometries cw)) = length_s (splitter2 cw)"
  shows "toolbarExtent (updateGeometries cw) = toolbarExtent cw"
    and "panelExtent (updateGeometries cw) = panelExtent cw"
    and "consoleExtent (updateGeometries cw) = consoleExtent cw"
  using assms
  by (simp_all add: toolbarExtent_def panelExtent_def consoleExtent_def updateGeometries_regions
      setGeometry_def)

lemma visible_update_same: "visible q = b \<Longrightarrow> q\<lparr>visible := b\<rparr> = q"
  by auto

text \<open>A recomputation reads a state only through its size, its margin, its regions apart
  from their rectangles, and what placing and bounding makes of its splitters.\<close>

lemma updateGeometries_cong:
  assumes size: "width c = width d" "height c = height d" "margin c = margin d"
    and t: "\<And>g. (toolbar c)\<lparr>geometry := g\<rparr> = (toolbar d)\<lparr>geometry := g\<rparr>"
    and v: "\<And>g. (viewer c)\<lparr>geometry := g\<rparr> = (viewer d)\<lparr>geometry := g\<rparr>"
    and k: "\<And>g. (console c)\<lparr>geometry := g\<rparr> = (console d)\<lparr>geometry := g\<rparr>"
    and p: "\<And>g. (panel c)\<lparr>geometry := g\<rparr> = (panel d)\<lparr>geometry := g\<rparr>"
    and len: "length_s (splitter0 c) = length_s (splitter0 d)"
      "length_s (splitter1 c) = length_s (splitter1 d)"
      "length_s (splitter2 c) = length_s (splitter2 d)"
    and s0: "\<And>a x y l.
        setMaximumLengthTwice a (placeSplitter (visible (toolbar d)) x y l (splitter0 c))
        = setMaximumLengthTwice a (placeSplitter (visible (toolbar d)) x y l (splitter0 d))"
    and s1: "\<And>a x y l.
        setMaximumLengthTwice a (placeSplitter (visible (panel d)) x y l (splitter1 c))
        = setMaximumLengthTwice a (placeSplitter (visible (panel d)) x y l (splitter1 d))"
    and s2: "\<And>a x y l.
        setMaximumLengthTwice a (placeSplitter (visible (console d)) x y l (splitter2 c))
        = setMaximumLengthTwice a (placeSplitter (visible (console d)) x y l (splitter2 d))"
  shows "updateGeometries c = updateGeometries d"
proof (rule CentralWidget.equality)
  have vis: "visible (toolbar c) = visible (toolbar d)" "visible (panel c) = visible (panel d)"
    "visible (console c) = visible (console d)"
    using arg_cong [OF t, of visible] arg_cong [OF p, of visible] arg_cong [OF k, of visible]
    by simp_all
  have hint: "minimumSizeHint (viewer c) = minimumSizeHint (viewer d)"
    using arg_cong [OF v, of minimumSizeHint] by simp
  have ext: "toolbarExtent c = toolbarExtent d" "panelExtent c = panelExtent d"
    "consoleExtent c = consoleExtent d"
    by (simp_all add: toolbarExtent_def panelExtent_def consoleExtent_def vis size len)
  show "toolbar (updateGeometries c) = toolbar (updateGeometries d)"
    by (simp add: updateGeometries_regions ext size setGeometry_def t)
  show "viewer (updateGeometries c) = viewer (updateGeometries d)"
    by (simp add: updateGeometries_regions ext size setGeometry_def v)
  show "console (updateGeometries c) = console (updateGeometries d)"
    by (simp add: updateGeometries_regions ext size setGeometry_def k)
  show "panel (updateGeometries c) = panel (updateGeometries d)"
    by (simp add: updateGeometries_regions ext size setGeometry_def p)
  show "splitter0 (updateGeometries c) = splitter0 (updateGeometries d)"
    by (simp add: updateGeometries_splitters ext size vis hint s0)
  show "splitter1 (updateGeometries c) = splitter1 (updateGeometries d)"
    by (simp add: updateGeometries_splitters ext size vis hint s1)
  show "splitter2 (updateGeometries c) = splitter2 (updateGeometries d)"
    by (simp add: updateGeometries_splitters ext size vis hint s2)
qed (simp_all add: size)

subsection \<open>Evaluating the examples\<close>

lemmas example_defs =
  updateGeometries_def for_loop_0_2 setMaximumLengths_def setMaximumLength_def setLength_def
  clamp_def setGeometryFromCenterline_def splitter_updateGeometry_def splitter_setCursor_def
  orientation_def setGeometry_def setContentsMargins_def contentsRect_def showW_def hideW_def
  Let_def Splitter_new_def CentralWidget_new_def contentWidget_def resizeEvent_def
  mouseMoveEvent_def dragLength_def pressed_def mousePressEvent_def splitters_def
  splitters_update_def splitter_z_def mapToParent_def leftButtonAt_def toolbarExtent_def
  panelExtent_def consoleExtent_def

lemma example_initial_eq:
  "example_initial =
     \<lparr>width = 1000, height = 800,
      viewer = \<lparr>geometry = \<lparr>rx = 68, ry = 0, rw = 732, rh = 600\<rparr>,
          visible = True, contentsMargins = \<lparr>mleft = 0, mtop = 0, mright = 0,
          mbottom = 0\<rparr>, mask = None, mouseNoMask = False, cursor = ArrowCursor,
          minimumSizeHint = \<lparr>sw = 0, sh = 0\<rparr>\<rparr>,
      toolbar = \<lparr>geometry = \<lparr>rx = 0, ry = 0, rw = 68, rh = 800\<rparr>,
          visible = True, contentsMargins = \<lparr>mleft = 0, mtop = 0, mright = 0,
          mbottom = 0\<rparr>, mask = None, mouseNoMask = False, cursor = ArrowCursor,
          minimumSizeHint = \<lparr>sw = 0, sh = 0\<rparr>\<rparr>,
      console = \<lparr>geometry = \<lparr>rx = 68, ry = 600, rw = 732, rh = 200\<rparr>,
          visible = True, contentsMargins = \<lparr>mleft = 0, mtop = 0, mright = 0,
          mbottom = 0\<rparr>, mask = None, mouseNoMask = False, cursor = ArrowCursor,
          minimumSizeHint = \<lparr>sw = 0, sh = 0\<rparr>\<rparr>,
      panel = \<lparr>geometry = \<lparr>rx = 800, ry = 0, rw = 200, rh = 800\<rparr>,
          visible = True, contentsMargins = \<lparr>mleft = 0, mtop = 0, mright = 0,
          mbottom = 0\<rparr>, mask = None, mouseNoMask = False, cursor = ArrowCursor,
          minimumSizeHint = \<lparr>sw = 0, sh = 0\<rparr>\<rparr>,
      margin = 0,
      splitter0 = \<lparr>geometry = \<lparr>rx = 0, ry = 0, rw = 0, rh = 0\<rparr>,
          visible = True, contentsMargins = \<lparr>mleft = 0, mtop = 0, mright = 0,
          mbottom = 0\<rparr>, mask = None, mouseNoMask = False, cursor = ArrowCursor,
          minimumSizeHint = \<lparr>sw = - 1, sh = - 1\<rparr>,
          direction = Direction.Right, isResizable = False, length_s = 68,
          minimumLength = 68, maximumLength = 800, centerlineStartPos = \<lparr>px = 68,
          py = 0\<rparr>, centerlineLength = 800, grabWidth = 10, highlightWidth = 4,
          isHovered = False, isPressed = False, lengthOnPress = None,
          zOnPress = None\<rparr>,
      splitter1 = \<lparr>geometry = \<lparr>rx = 795, ry = 0, rw = 10, rh = 800\<rparr>,
          visible = True, contentsMargins = \<lparr>mleft = 3, mtop = 0, mright = 3,
          mbottom = 0\<rparr>, mask = Some \<lparr>rx = 3, ry = 0, rw = 4,
          rh = 800\<rparr>, mouseNoMask = True, cursor = SplitHCursor,
          minimumSizeHint = \<lparr>sw = - 1, sh = - 1\<rparr>, direction = Direction.Left,
          isResizable = True, length_s = 200, minimumLength = 200, maximumLength = 932,
          centerlineStartPos = \<lparr>px = 800, py = 0\<rparr>, centerlineLength = 800,
          grabWidth = 10, highlightWidth = 4, isHovered = False, isPressed = False,
          lengthOnPress = None, zOnPress = None\<rparr>,
      splitter2 = \<lparr>geometry = \<lparr>rx = 68, ry = 595, rw = 732, rh = 10\<rparr>,
          visible = True, contentsMargins = \<lparr>mleft = 0, mtop = 3, mright = 0,
          mbottom = 3\<rparr>, mask = Some \<lparr>rx = 0, ry = 3, rw = 732,
          rh = 4\<rparr>, mouseNoMask = True, cursor = SplitVCursor,
          minimumSizeHint = \<lparr>sw = - 1, sh = - 1\<rparr>, direction = Top,
          isResizable = True, length_s = 200, minimumLength = 50, maximumLength = 800,
          centerlineStartPos = \<lparr>px = 68, py = 600\<rparr>, centerlineLength = 732,
          grabWidth = 10, highlightWidth = 4, isHovered = False, isPressed = False,
          lengthOnPress = None, zOnPress = None\<rparr>\<rparr>"
  by (simp add: example_initial_def example_defs)

lemma example_dragged_eq:
  "example_dragged =
     \<lparr>width = 1000, height = 800,
      viewer = \<lparr>geometry = \<lparr>rx = 68, ry = 0, rw = 432, rh = 600\<rparr>,
          visible = True, contentsMargins = \<lparr>mleft = 0, mtop = 0, mright = 0,
          mbottom = 0\<rparr>, mask = None, mouseNoMask = False, cursor = ArrowCursor,
          minimumSizeHint = \<lparr>sw = 0, sh = 0\<rparr>\<rparr>,
      toolbar = \<lparr>geometry = \<lparr>rx = 0, ry = 0, rw = 68, rh = 800\<rparr>,
          visible = True, contentsMargins = \<lparr>mleft = 0, mtop = 0, mright = 0,
          mbottom = 0\<rparr>, mask = None, mouseNoMask = False, cursor = ArrowCursor,
          minimumSizeHint = \<lparr>sw = 0, sh = 0\<rparr>\<rparr>,
      console = \<lparr>geometry = \<lparr>rx = 68, ry = 600, rw = 432, rh = 200\<rparr>,
          visible = True, contentsMargins = \<lparr>mleft = 0, mtop = 0, mright = 0,
          mbottom = 0\<rparr>, mask = None, mouseNoMask = False, cursor = ArrowCursor,
          minimumSizeHint = \<lparr>sw = 0, sh = 0\<rparr>\<rparr>,
      panel = \<lparr>geometry = \<lparr>rx = 500, ry = 0, rw = 500, rh = 800\<rparr>,
          visible = True, contentsMargins = \<lparr>mleft = 0, mtop = 0, mright = 0,
          mbottom = 0\<rparr>, mask = None, mouseNoMask = False, cursor = ArrowCursor,
          minimumSizeHint = \<lparr>sw = 0, sh = 0\<rparr>\<rparr>,
      margin = 0,
      splitter0 = \<lparr>geometry = \<lparr>rx = 0, ry = 0, rw = 0, rh = 0\<rparr>,
          visible = True, contentsMargins = \<lparr>mleft = 0, mtop = 0, mright = 0,
          mbottom = 0\<rparr>, mask = None, mouseNoMask = False, cursor = ArrowCursor,
          minimumSizeHint = \<lparr>sw = - 1, sh = - 1\<rparr>,
          direction = Direction.Right, isResizable = False, length_s = 68,
          minimumLength = 68, maximumLength = 500, centerlineStartPos = \<lparr>px = 68,
          py = 0\<rparr>, centerlineLength = 800, grabWidth = 10, highlightWidth = 4,
          isHovered = False, isPressed = False, lengthOnPress = None,
          zOnPress = None\<rparr>,
      splitter1 = \<lparr>geometry = \<lparr>rx = 495, ry = 0, rw = 10, rh = 800\<rparr>,
          visible = True, contentsMargins = \<lparr>mleft = 3, mtop = 0, mright = 3,
          mbottom = 0\<rparr>, mask = Some \<lparr>rx = 3, ry = 0, rw = 4,
          rh = 800\<rparr>, mouseNoMask = True, cursor = SplitHCursor,
          minimumSizeHint = \<lparr>sw = - 1, sh = - 1\<rparr>, direction = Direction.Left,
          isResizable = True, length_s = 500, minimumLength = 200, maximumLength = 932,
          centerlineStartPos = \<lparr>px = 500, py = 0\<rparr>, centerlineLength = 800,
          grabWidth = 10, highlightWidth = 4, isHovered = False, isPressed = True,
          lengthOnPress = Some 200, zOnPress = Some 800\<rparr>,
      splitter2 = \<lparr>geometry = \<lparr>rx = 68, ry = 595, rw = 432, rh = 10\<rparr>,
          visible = True, contentsMargins = \<lparr>mleft = 0, mtop = 3, mright = 0,
          mbottom = 3\<rparr>, mask = Some \<lparr>rx = 0, ry = 3, rw = 432,
          rh = 4\<rparr>, mouseNoMask = True, cursor = SplitVCursor,
          minimumSizeHint = \<lparr>sw = - 1, sh = - 1\<rparr>, direction = Top,
          isResizable = True, length_s = 200, minimumLength = 50, maximumLength = 800,
          centerlineStartPos = \<lparr>px = 68, py = 600\<rparr>, centerlineLength = 432,
          grabWidth = 10, highlightWidth = 4, isHovered = False, isPressed = False,
          lengthOnPress = None, zOnPress = None\<rparr>\<rparr>"
  by (simp add: example_dragged_def example_initial_eq example_defs)

lemma example_shrunk_eq:
  "example_shrunk =
     \<lparr>width = 400, height = 800,
      viewer = \<lparr>geometry = \<lparr>rx = 68, ry = 0, rw = - 168, rh = 600\<rparr>,
          visible = True, contentsMargins = \<lparr>mleft = 0, mtop = 0, mright = 0,
          mbottom = 0\<rparr>, mask = None, mouseNoMask = False, cursor = ArrowCursor,
          minimumSizeHint = \<lparr>sw = 0, sh = 0\<rparr>\<rparr>,
      toolbar = \<lparr>geometry = \<lparr>rx = 0, ry = 0, rw = 68, rh = 800\<rparr>,
          visible = True, contentsMargins = \<lparr>mleft = 0, mtop = 0, mright = 0,
          mbottom = 0\<rparr>, mask = None, mouseNoMask = False, cursor = ArrowCursor,
          minimumSizeHint = \<lparr>sw = 0, sh = 0\<rparr>\<rparr>,
      console = \<lparr>geometry = \<lparr>rx = 68, ry = 600, rw = - 168, rh = 200\<rparr>,
          visible = True, contentsMargins = \<lparr>mleft = 0, mtop = 0, mright = 0,
          mbottom = 0\<rparr>, mask = None, mouseNoMask = False, cursor = ArrowCursor,
          minimumSizeHint = \<lparr>sw = 0, sh = 0\<rparr>\<rparr>,
      panel = \<lparr>geometry = \<lparr>rx = - 100, ry = 0, rw = 500, rh = 800\<rparr>,
          visible = True, contentsMargins = \<lparr>mleft = 0, mtop = 0, mright = 0,
          mbottom = 0\<rparr>, mask = None, mouseNoMask = False, cursor = ArrowCursor,
          minimumSizeHint = \<lparr>sw = 0, sh = 0\<rparr>\<rparr>,
      margin = 0,
      splitter0 = \<lparr>geometry = \<lparr>rx = 0, ry = 0, rw = 0, rh = 0\<rparr>,
          visible = True, contentsMargins = \<lparr>mleft = 0, mtop = 0, mright = 0,
          mbottom = 0\<rparr>, mask = None, mouseNoMask = False, cursor = ArrowCursor,
          minimumSizeHint = \<lparr>sw = - 1, sh = - 1\<rparr>,
          direction = Direction.Right, isResizable = False, length_s = 68,
          minimumLength = 68, maximumLength = - 100, centerlineStartPos = \<lparr>px = 68,
          py = 0\<rparr>, centerlineLength = 800, grabWidth = 10, highlightWidth = 4,
          isHovered = False, isPressed = False, lengthOnPress = None,
          zOnPress = None\<rparr>,
      splitter1 = \<lparr>geometry = \<lparr>rx = - 105, ry = 0, rw = 10, rh = 800\<rparr>,
          visible = True, contentsMargins = \<lparr>mleft = 3, mtop = 0, mright = 3,
          mbottom = 0\<rparr>, mask = Some \<lparr>rx = 3, ry = 0, rw = 4,
          rh = 800\<rparr>, mouseNoMask = True, cursor = SplitHCursor,
          minimumSizeHint = \<lparr>sw = - 1, sh = - 1\<rparr>, direction = Direction.Left,
          isResizable = True, length_s = 332, minimumLength = 200, maximumLength = 332,
          centerlineStartPos = \<lparr>px = - 100, py = 0\<rparr>, centerlineLength = 800,
          grabWidth = 10, highlightWidth = 4, isHovered = False, isPressed = True,
          lengthOnPress = Some 200, zOnPress = Some 800\<rparr>,
      splitter2 = \<lparr>geometry = \<lparr>rx = 68, ry = 595, rw = - 168,
          rh = 10\<rparr>, visible = True, contentsMargins = \<lparr>mleft = 0, mtop = 3,
          mright = 0, mbottom = 3\<rparr>, mask = Some \<lparr>rx = 0, ry = 3, rw = - 168,
          rh = 4\<rparr>, mouseNoMask = True, cursor = SplitVCursor,
          minimumSizeHint = \<lparr>sw = - 1, sh = - 1\<rparr>, direction = Top,
          isResizable = True, length_s = 200, minimumLength = 50, maximumLength = 800,
          centerlineStartPos = \<lparr>px = 68, py = 600\<rparr>, centerlineLength = - 168,
          grabWidth = 10, highlightWidth = 4, isHovered = False, isPressed = False,
          lengthOnPress = None, zOnPress = None\<rparr>\<rparr>"
  by (simp add: example_shrunk_def example_dragged_eq example_defs)

lemma example_no_toolbar_eq:
  "example_no_toolbar =
     \<lparr>width = 1000, height = 800,
      viewer = \<lparr>geometry = \<lparr>rx = 0, ry = 0, rw = 800, rh = 600\<rparr>,
          visible = True, contentsMargins = \<lparr>mleft = 0, mtop = 0, mright = 0,
          mbottom = 0\<rparr>, mask = None, mouseNoMask = False, cursor = ArrowCursor,
          minimumSizeHint = \<lparr>sw = 0, sh = 0\<rparr>\<rparr>,
      toolbar = \<lparr>geometry = \<lparr>rx = 0, ry = 0, rw = 0, rh = 800\<rparr>,
          visible = False, contentsMargins = \<lparr>mleft = 0, mtop = 0, mright = 0,
          mbottom = 0\<rparr>, mask = None, mouseNoMask = False, cursor = ArrowCursor,
          minimumSizeHint = \<lparr>sw = 0, sh = 0\<rparr>\<rparr>,
      console = \<lparr>geometry = \<lparr>rx = 0, ry = 600, rw = 800, rh = 200\<rparr>,
          visible = True, contentsMargins = \<lparr>mleft = 0, mtop = 0, mright = 0,
          mbottom = 0\<rparr>, mask = None, mouseNoMask = False, cursor = ArrowCursor,
          minimumSizeHint = \<lparr>sw = 0, sh = 0\<rparr>\<rparr>,
      panel = \<lparr>geometry = \<lparr>rx = 800, ry = 0, rw = 200, rh = 800\<rparr>,
          visible = True, contentsMargins = \<lparr>mleft = 0, mtop = 0, mright = 0,
          mbottom = 0\<rparr>, mask = None, mouseNoMask = False, cursor = ArrowCursor,
          minimumSizeHint = \<lparr>sw = 0, sh = 0\<rparr>\<rparr>,
      margin = 0,
      splitter0 = \<lparr>geometry = \<lparr>rx = 0, ry = 0, rw = 0, rh = 0\<rparr>,
          visible = False, contentsMargins = \<lparr>mleft = 0, mtop = 0, mright = 0,
          mbottom = 0\<rparr>, mask = None, mouseNoMask = False, cursor = ArrowCursor,
          minimumSizeHint = \<lparr>sw = - 1, sh = - 1\<rparr>,
          direction = Direction.Right, isResizable = False, length_s = 68,
          minimumLength = 68, maximumLength = 800, centerlineStartPos = \<lparr>px = 0,
          py = 0\<rparr>, centerlineLength = 0, grabWidth = 10, highlightWidth = 4,
          isHovered = False, isPressed = False, lengthOnPress = None,
          zOnPress = None\<rparr>,
      splitter1 = \<lparr>geometry = \<lparr>rx = 795, ry = 0, rw = 10, rh = 800\<rparr>,
          visible = True, contentsMargins = \<lparr>mleft = 3, mtop = 0, mright = 3,
          mbottom = 0\<rparr>, mask = Some \<lparr>rx = 3, ry = 0, rw = 4,
          rh = 800\<rparr>, mouseNoMask = True, cursor = SplitHCursor,
          minimumSizeHint = \<lparr>sw = - 1, sh = - 1\<rparr>, direction = Direction.Left,
          isResizable = True, length_s = 200, minimumLength = 200, maximumLength = 1000,
          centerlineStartPos = \<lparr>px = 800, py = 0\<rparr>, centerlineLength = 800,
          grabWidth = 10, highlightWidth = 4, isHovered = False, isPressed = False,
          lengthOnPress = None, zOnPress = None\<rparr>,
      splitter2 = \<lparr>geometry = \<lparr>rx = 0, ry = 595, rw = 800, rh = 10\<rparr>,
          visible = True, contentsMargins = \<lparr>mleft = 0, mtop = 3, mright = 0,
          mbottom = 3\<rparr>, mask = Some \<lparr>rx = 0, ry = 3, rw = 800,
          rh = 4\<rparr>, mouseNoMask = True, cursor = SplitVCursor,
          minimumSizeHint = \<lparr>sw = - 1, sh = - 1\<rparr>, direction = Top,
          isResizable = True, length_s = 200, minimumLength = 50, maximumLength = 800,
          centerlineStartPos = \<lparr>px = 0, py = 600\<rparr>, centerlineLength = 800,
          grabWidth = 10, highlightWidth = 4, isHovered = False, isPressed = False,
          lengthOnPress = None, zOnPress = None\<rparr>\<rparr>"
  by (simp add: example_no_toolbar_def example_defs)

lemma example_small_eq:
  "example_small =
     \<lparr>width = 100, height = 30,
      viewer = \<lparr>geometry = \<lparr>rx = 68, ry = 0, rw = - 168, rh = - 170\<rparr>,
          visible = True, contentsMargins = \<lparr>mleft = 0, mtop = 0, mright = 0,
          mbottom = 0\<rparr>, mask = None, mouseNoMask = False, cursor = ArrowCursor,
          minimumSizeHint = \<lparr>sw = 0, sh = 0\<rparr>\<rparr>,
      toolbar = \<lparr>geometry = \<lparr>rx = 0, ry = 0, rw = 68, rh = 30\<rparr>,
          visible = True, contentsMargins = \<lparr>mleft = 0, mtop = 0, mright = 0,
          mbottom = 0\<rparr>, mask = None, mouseNoMask = False, cursor = ArrowCursor,
          minimumSizeHint = \<lparr>sw = 0, sh = 0\<rparr>\<rparr>,
      console = \<lparr>geometry = \<lparr>rx = 68, ry = - 170, rw = - 168,
          rh = 200\<rparr>, visible = True, contentsMargins = \<lparr>mleft = 0, mtop = 0,
          mright = 0, mbottom = 0\<rparr>, mask = None, mouseNoMask = False,
          cursor = ArrowCursor, minimumSizeHint = \<lparr>sw = 0, sh = 0\<rparr>\<rparr>,
      panel = \<lparr>geometry = \<lparr>rx = - 100, ry = 0, rw = 200, rh = 30\<rparr>,
          visible = True, contentsMargins = \<lparr>mleft = 0, mtop = 0, mright = 0,
          mbottom = 0\<rparr>, mask = None, mouseNoMask = False, cursor = ArrowCursor,
          minimumSizeHint = \<lparr>sw = 0, sh = 0\<rparr>\<rparr>,
      margin = 0,
      splitter0 = \<lparr>geometry = \<lparr>rx = 0, ry = 0, rw = 0, rh = 0\<rparr>,
          visible = True, contentsMargins = \<lparr>mleft = 0, mtop = 0, mright = 0,
          mbottom = 0\<rparr>, mask = None, mouseNoMask = False, cursor = ArrowCursor,
          minimumSizeHint = \<lparr>sw = - 1, sh = - 1\<rparr>,
          direction = Direction.Right, isResizable = False, length_s = 68,
          minimumLength = 68, maximumLength = - 100, centerlineStartPos = \<lparr>px = 68,
          py = 0\<rparr>, centerlineLength = 30, grabWidth = 10, highlightWidth = 4,
          isHovered = False, isPressed = False, lengthOnPress = None,
          zOnPress = None\<rparr>,
      splitter1 = \<lparr>geometry = \<lparr>rx = - 105, ry = 0, rw = 10, rh = 30\<rparr>,
          visible = True, contentsMargins = \<lparr>mleft = 3, mtop = 0, mright = 3,
          mbottom = 0\<rparr>, mask = Some \<lparr>rx = 3, ry = 0, rw = 4, rh = 30\<rparr>,
          mouseNoMask = True, cursor = SplitHCursor, minimumSizeHint = \<lparr>sw = - 1,
          sh = - 1\<rparr>, direction = Direction.Left, isResizable = True, length_s = 200,
          minimumLength = 200, maximumLength = 32, centerlineStartPos = \<lparr>px = - 100,
          py = 0\<rparr>, centerlineLength = 30, grabWidth = 10, highlightWidth = 4,
          isHovered = False, isPressed = False, lengthOnPress = None,
          zOnPress = None\<rparr>,
      splitter2 = \<lparr>geometry = \<lparr>rx = 68, ry = - 175, rw = - 168,
          rh = 10\<rparr>, visible = True, contentsMargins = \<lparr>mleft = 0, mtop = 3,
          mright = 0, mbottom = 3\<rparr>, mask = Some \<lparr>rx = 0, ry = 3, rw = - 168,
          rh = 4\<rparr>, mouseNoMask = True, cursor = SplitVCursor,
          minimumSizeHint = \<lparr>sw = - 1, sh = - 1\<rparr>, direction = Top,
          isResizable = True, length_s = 50, minimumLength = 50, maximumLength = 30,
          centerlineStartPos = \<lparr>px = 68, py = - 170\<rparr>,
          centerlineLength = - 168, grabWidth = 10, highlightWidth = 4, isHovered = False,
          isPressed = False, lengthOnPress = None, zOnPress = None\<rparr>\<rparr>"
  by (simp add: example_small_def example_defs)

lemma example_hidden_panel_eq:
  "example_hidden_panel =
     \<lparr>width = 468, height = 350,
      viewer = \<lparr>geometry = \<lparr>rx = 68, ry = 0, rw = 400, rh = 150\<rparr>,
          visible = True, contentsMargins = \<lparr>mleft = 0, mtop = 0, mright = 0,
          mbottom = 0\<rparr>, mask = None, mouseNoMask = False, cursor = ArrowCursor,
          minimumSizeHint = \<lparr>sw = 400, sh = 300\<rparr>\<rparr>,
      toolbar = \<lparr>geometry = \<lparr>rx = 0, ry = 0, rw = 68, rh = 350\<rparr>,
          visible = True, contentsMargins = \<lparr>mleft = 0, mtop = 0, mright = 0,
          mbottom = 0\<rparr>, mask = None, mouseNoMask = False, cursor = ArrowCursor,
          minimumSizeHint = \<lparr>sw = 0, sh = 0\<rparr>\<rparr>,
      console = \<lparr>geometry = \<lparr>rx = 68, ry = 150, rw = 400, rh = 200\<rparr>,
          visible = True, contentsMargins = \<lparr>mleft = 0, mtop = 0, mright = 0,
          mbottom = 0\<rparr>, mask = None, mouseNoMask = False, cursor = ArrowCursor,
          minimumSizeHint = \<lparr>sw = 0, sh = 0\<rparr>\<rparr>,
      panel = \<lparr>geometry = \<lparr>rx = 468, ry = 0, rw = 0, rh = 350\<rparr>,
          visible = False, contentsMargins = \<lparr>mleft = 0, mtop = 0, mright = 0,
          mbottom = 0\<rparr>, mask = None, mouseNoMask = False, cursor = ArrowCursor,
          minimumSizeHint = \<lparr>sw = 0, sh = 0\<rparr>\<rparr>,
      margin = 0,
      splitter0 = \<lparr>geometry = \<lparr>rx = 0, ry = 0, rw = 0, rh = 0\<rparr>,
          visible = True, contentsMargins = \<lparr>mleft = 0, mtop = 0, mright = 0,
          mbottom = 0\<rparr>, mask = None, mouseNoMask = False, cursor = ArrowCursor,
          minimumSizeHint = \<lparr>sw = - 1, sh = - 1\<rparr>,
          direction = Direction.Right, isResizable = False, length_s = 68,
          minimumLength = 68, maximumLength = 68, centerlineStartPos = \<lparr>px = 68,
          py = 0\<rparr>, centerlineLength = 350, grabWidth = 10, highlightWidth = 4,
          isHovered = False, isPressed = False, lengthOnPress = None,
          zOnPress = None\<rparr>,
      splitter1 = \<lparr>geometry = \<lparr>rx = - 5, ry = 0, rw = 10, rh = 0\<rparr>,
          visible = False, contentsMargins = \<lparr>mleft = 3, mtop = 0, mright = 3,
          mbottom = 0\<rparr>, mask = Some \<lparr>rx = 3, ry = 0, rw = 4, rh = 0\<rparr>,
          mouseNoMask = True, cursor = SplitHCursor, minimumSizeHint = \<lparr>sw = - 1,
          sh = - 1\<rparr>, direction = Direction.Left, isResizable = True, length_s = 200,
          minimumLength = 200, maximumLength = 0, centerlineStartPos = \<lparr>px = 0,
          py = 0\<rparr>, centerlineLength = 0, grabWidth = 10, highlightWidth = 4,
          isHovered = False, isPressed = False, lengthOnPress = None,
          zOnPress = None\<rparr>,
      splitter2 = \<lparr>geometry = \<lparr>rx = 68, ry = 145, rw = 400, rh = 10\<rparr>,
          visible = True, contentsMargins = \<lparr>mleft = 0, mtop = 3, mright = 0,
          mbottom = 3\<rparr>, mask = Some \<lparr>rx = 0, ry = 3, rw = 400,
          rh = 4\<rparr>, mouseNoMask = True, cursor = SplitVCursor,
          minimumSizeHint = \<lparr>sw = - 1, sh = - 1\<rparr>, direction = Top,
          isResizable = True, length_s = 50, minimumLength = 50, maximumLength = 50,
          centerlineStartPos = \<lparr>px = 68, py = 150\<rparr>, centerlineLength = 400,
          grabWidth = 10, highlightWidth = 4, isHovered = False, isPressed = False,
          lengthOnPress = None, zOnPress = None\<rparr>\<rparr>"
  by (simp add: example_hidden_panel_def example_defs)

lemma example_panel_requested_eq:
  "example_panel_requested =
     \<lparr>width = 468, height = 350,
      viewer = \<lparr>geometry = \<lparr>rx = 68, ry = 0, rw = 400, rh = 150\<rparr>,
          visible = True, contentsMargins = \<lparr>mleft = 0, mtop = 0, mright = 0,
          mbottom = 0\<rparr>, mask = None, mouseNoMask = False, cursor = ArrowCursor,
          minimumSizeHint = \<lparr>sw = 400, sh = 300\<rparr>\<rparr>,
      toolbar = \<lparr>geometry = \<lparr>rx = 0, ry = 0, rw = 68, rh = 350\<rparr>,
          visible = True, contentsMargins = \<lparr>mleft = 0, mtop = 0, mright = 0,
          mbottom = 0\<rparr>, mask = None, mouseNoMask = False, cursor = ArrowCursor,
          minimumSizeHint = \<lparr>sw = 0, sh = 0\<rparr>\<rparr>,
      console = \<lparr>geometry = \<lparr>rx = 68, ry = 150, rw = 400, rh = 200\<rparr>,
          visible = True, contentsMargins = \<lparr>mleft = 0, mtop = 0, mright = 0,
          mbottom = 0\<rparr>, mask = None, mouseNoMask = False, cursor = ArrowCursor,
          minimumSizeHint = \<lparr>sw = 0, sh = 0\<rparr>\<rparr>,
      panel = \<lparr>geometry = \<lparr>rx = 468, ry = 0, rw = 0, rh = 350\<rparr>,
          visible = True, contentsMargins = \<lparr>mleft = 0, mtop = 0, mright = 0,
          mbottom = 0\<rparr>, mask = None, mouseNoMask = False, cursor = ArrowCursor,
          minimumSizeHint = \<lparr>sw = 0, sh = 0\<rparr>\<rparr>,
      margin = 0,
      splitter0 = \<lparr>geometry = \<lparr>rx = 0, ry = 0, rw = 0, rh = 0\<rparr>,
          visible = True, contentsMargins = \<lparr>mleft = 0, mtop = 0, mright = 0,
          mbottom = 0\<rparr>, mask = None, mouseNoMask = False, cursor = ArrowCursor,
          minimumSizeHint = \<lparr>sw = - 1, sh = - 1\<rparr>,
          direction = Direction.Right, isResizable = False, length_s = 68,
          minimumLength = 68, maximumLength = 68, centerlineStartPos = \<lparr>px = 68,
          py = 0\<rparr>, centerlineLength = 350, grabWidth = 10, highlightWidth = 4,
          isHovered = False, isPressed = False, lengthOnPress = None,
          zOnPress = None\<rparr>,
      splitter1 = \<lparr>geometry = \<lparr>rx = - 5, ry = 0, rw = 10, rh = 0\<rparr>,
          visible = False, contentsMargins = \<lparr>mleft = 3, mtop = 0, mright = 3,
          mbottom = 0\<rparr>, mask = Some \<lparr>rx = 3, ry = 0, rw = 4, rh = 0\<rparr>,
          mouseNoMask = True, cursor = SplitHCursor, minimumSizeHint = \<lparr>sw = - 1,
          sh = - 1\<rparr>, direction = Direction.Left, isResizable = True, length_s = 200,
          minimumLength = 200, maximumLength = 0, centerlineStartPos = \<lparr>px = 0,
          py = 0\<rparr>, centerlineLength = 0, grabWidth = 10, highlightWidth = 4,
          isHovered = False, isPressed = False, lengthOnPress = None,
          zOnPress = None\<rparr>,
      splitter2 = \<lparr>geometry = \<lparr>rx = 68, ry = 145, rw = 400, rh = 10\<rparr>,
          visible = True, contentsMargins = \<lparr>mleft = 0, mtop = 3, mright = 0,
          mbottom = 3\<rparr>, mask = Some \<lparr>rx = 0, ry = 3, rw = 400,
          rh = 4\<rparr>, mouseNoMask = True, cursor = SplitVCursor,
          minimumSizeHint = \<lparr>sw = - 1, sh = - 1\<rparr>, direction = Top,
          isResizable = True, length_s = 50, minimumLength = 50, maximumLength = 50,
          centerlineStartPos = \<lparr>px = 68, py = 150\<rparr>, centerlineLength = 400,
          grabWidth = 10, highlightWidth = 4, isHovered = False, isPressed = False,
          lengthOnPress = None, zOnPress = None\<rparr>\<rparr>"
  by (simp add: example_panel_requested_def example_hidden_panel_eq)

lemma example_dragged_returns:
  "mouseMoveEvent Splitter1 (leftButtonAt (- 295) 7)
     (pressed Splitter1 (leftButtonAt 5 7) example_initial) = Some example_dragged"
  by (simp add: example_dragged_eq example_initial_eq example_defs)

lemma minimumSizeHint_eq:
  "sw (CentralWidget_minimumSizeHint cw) =
     2 * margin cw + sw (minimumSizeHint (viewer cw))
     + (if visible (toolbar cw) then margin cw + minimumLength (splitter0 cw) else 0)
     + (if visible (panel cw) then margin cw + minimumLength (splitter1 cw) else 0)"
  "sh (CentralWidget_minimumSizeHint cw) =
     2 * margin cw + sh (minimumSizeHint (viewer cw))
     + (if visible (console cw) then margin cw + minimumLength (splitter2 cw) else 0)"
  by (simp_all add: CentralWidget_minimumSizeHint_def QSize_add_def Let_def)

lemma updateGeometries_in_range:
  assumes "minimumLength (splitters (updateGeometries cw) j)
             \<le> maximumLength (splitters (updateGeometries cw) j)"
  shows "minimumLength (splitters (updateGeometries cw) j)
             \<le> length_s (splitters (updateGeometries cw) j)
         \<and> length_s (splitters (updateGeometries cw) j)
             \<le> maximumLength (splitters (updateGeometries cw) j)"
  using assms
  by (cases j) (simp_all add: splitters_def updateGeometries_splitters clamp_within)

lemma dragLength_Some:
  assumes "dragLength e s = Some s'"
  shows "minimumLength s' = minimumLength s \<and> maximumLength s' = maximumLength s
         \<and> (\<exists>v. length_s s' = clamp v (minimumLength s) (maximumLength s))"
  using assms
  by (auto simp add: dragLength_def Let_def split: option.splits if_splits)

lemma splitter_z_pointerEvent:
  "splitter_z s (pos (pointerEvent s p b bs)) = axisCoordinate s p"
  by (simp add: splitter_z_def pointerEvent_def mapToParent_def mapFromParent_def
      axisCoordinate_def Let_def)

lemma axisCoordinate_direction:
  "direction s = direction s' \<Longrightarrow> axisCoordinate s p = axisCoordinate s' p"
  by (simp add: axisCoordinate_def orientation_def)

lemma pointerEvent_fields [simp]:
  "button (pointerEvent s p b bs) = b"
  "buttons (pointerEvent s p b bs) = bs"
  by (simp_all add: pointerEvent_def)

text \<open>A length that two clampings leave as it is lies within the maximum, or is a
  minimum above the maximum.\<close>

lemma clamp_twice_fixed:
  assumes "clamp (clamp v lo hi) lo hi = v"
  shows "v \<le> hi \<or> (v = lo \<and> hi < lo)"
  using assms by (simp add: clamp_def split: if_splits)

lemma viewer_width_kept:
  assumes w: "sw (CentralWidget_minimumSizeHint cw) \<le> width cw"
    and l0: "visible (toolbar cw)
       \<longrightarrow> length_s (splitter0 (updateGeometries cw)) = length_s (splitter0 cw)"
    and l1: "visible (panel cw)
       \<longrightarrow> length_s (splitter1 (updateGeometries cw)) = length_s (splitter1 cw)"
  shows "sw (minimumSizeHint (viewer cw)) \<le> rw (geometry (viewer (updateGeometries cw)))"
proof -
  have f0: "visible (toolbar cw) \<Longrightarrow>
      length_s (splitter0 cw)
        \<le> width cw - 3 * margin cw - panelExtent cw - sw (minimumSizeHint (viewer cw))
      \<or> (length_s (splitter0 cw) = minimumLength (splitter0 cw)
          \<and> width cw - 3 * margin cw - panelExtent cw - sw (minimumSizeHint (viewer cw))
              < minimumLength (splitter0 cw))"
    using l0 by (intro clamp_twice_fixed) (simp add: updateGeometries_splitters)
  have f1: "visible (panel cw) \<Longrightarrow>
      length_s (splitter1 cw)
        \<le> width cw - 3 * margin cw - toolbarExtent cw - sw (minimumSizeHint (viewer cw))
      \<or> (length_s (splitter1 cw) = minimumLength (splitter1 cw)
          \<and> width cw - 3 * margin cw - toolbarExtent cw - sw (minimumSizeHint (viewer cw))
              < minimumLength (splitter1 cw))"
    using l1 by (intro clamp_twice_fixed) (simp add: updateGeometries_splitters)
  show ?thesis
    using w f0 f1
    by (auto simp add: minimumSizeHint_eq updateGeometries_regions setGeometry_def
        toolbarExtent_def panelExtent_def split: if_splits)
qed

lemma viewer_height_kept:
  assumes h: "sh (CentralWidget_minimumSizeHint cw) \<le> height cw"
    and l2: "visible (console cw)
       \<longrightarrow> length_s (splitter2 (updateGeometries cw)) = length_s (splitter2 cw)"
  shows "sh (minimumSizeHint (viewer cw)) \<le> rh (geometry (viewer (updateGeometries cw)))"
proof -
  have f2: "visible (console cw) \<Longrightarrow>
      length_s (splitter2 cw) \<le> height cw - 3 * margin cw - sh (minimumSizeHint (viewer cw))
      \<or> (length_s (splitter2 cw) = minimumLength (splitter2 cw)
          \<and> height cw - 3 * margin cw - sh (minimumSizeHint (viewer cw))
              < minimumLength (splitter2 cw))"
    using l2 by (intro clamp_twice_fixed) (simp add: updateGeometries_splitters)
  show ?thesis
    using h f2
    by (auto simp add: minimumSizeHint_eq updateGeometries_regions setGeometry_def
        consoleExtent_def split: if_splits)
qed

section \<open>The claims\<close>

text \<open>
  C1. The claim: for every container size whose width and height are at least the
  computed minimum-size hint, a recomputation assigns the four regions rectangles of
  non-negative width and height, and the viewer's rectangle is at least as large as the
  viewer's minimum-size hint.

  It fails on \<open>example_shrunk\<close>: the container, 400 by 800, is larger than the hint, 268
  by 50, and the viewer gets the width -168. The hint counts the minimum length of each
  visible splitter, the rectangles are computed from the current lengths, and the
  lengths are bounded only after the positions have been read from them.
\<close>

theorem viewer_minimum_counterexample:
  "sw (CentralWidget_minimumSizeHint example_shrunk) = 268
   \<and> sh (CentralWidget_minimumSizeHint example_shrunk) = 50
   \<and> width example_shrunk = 400
   \<and> height example_shrunk = 800
   \<and> sw (minimumSizeHint (viewer example_shrunk)) = 0
   \<and> rw (geometry (viewer example_shrunk)) = - 168"
  by (simp add: example_shrunk_eq CentralWidget_minimumSizeHint_def QSize_add_def Let_def)

text \<open>
  C1, amended. For every container size whose width and height are at least the
  computed minimum-size hint, a recomputation that leaves the length of the splitter of
  every visible satellite as it found it assigns the viewer a rectangle at least as
  large as the viewer's minimum-size hint. The four rectangles have non-negative
  extents when moreover the viewer's hint and the margin are not negative, the visible
  satellites have splitters of non-negative length and the margin is 0 if a satellite is
  hidden.
\<close>

theorem viewer_keeps_minimum_size:
  assumes "sw (CentralWidget_minimumSizeHint cw) \<le> width cw"
    and "sh (CentralWidget_minimumSizeHint cw) \<le> height cw"
    and "visible (toolbar cw)
       \<longrightarrow> length_s (splitter0 (updateGeometries cw)) = length_s (splitter0 cw)"
    and "visible (panel cw)
       \<longrightarrow> length_s (splitter1 (updateGeometries cw)) = length_s (splitter1 cw)"
    and "visible (console cw)
       \<longrightarrow> length_s (splitter2 (updateGeometries cw)) = length_s (splitter2 cw)"
  shows "sw (minimumSizeHint (viewer cw)) \<le> rw (geometry (viewer (updateGeometries cw)))
    \<and> sh (minimumSizeHint (viewer cw)) \<le> rh (geometry (viewer (updateGeometries cw)))
    \<and> (0 \<le> sw (minimumSizeHint (viewer cw)) \<and> 0 \<le> sh (minimumSizeHint (viewer cw))
        \<and> 0 \<le> margin cw
        \<and> (if visible (toolbar cw) then 0 \<le> length_s (splitter0 cw) else margin cw = 0)
        \<and> (if visible (panel cw) then 0 \<le> length_s (splitter1 cw) else margin cw = 0)
        \<and> (if visible (console cw) then 0 \<le> length_s (splitter2 cw) else margin cw = 0)
       \<longrightarrow> nonNegative (geometry (viewer (updateGeometries cw)))
           \<and> nonNegative (geometry (toolbar (updateGeometries cw)))
           \<and> nonNegative (geometry (panel (updateGeometries cw)))
           \<and> nonNegative (geometry (console (updateGeometries cw))))"
proof -
  have vw: "sw (minimumSizeHint (viewer cw)) \<le> rw (geometry (viewer (updateGeometries cw)))"
    using assms(1,3,4) by (rule viewer_width_kept)
  have vh: "sh (minimumSizeHint (viewer cw)) \<le> rh (geometry (viewer (updateGeometries cw)))"
    using assms(2,5) by (rule viewer_height_kept)
  show ?thesis
    using vw vh
    by (auto simp add: updateGeometries_regions setGeometry_def nonNegative_def
        toolbarExtent_def panelExtent_def consoleExtent_def split: if_splits)
qed

text \<open>
  On \<open>example_hidden_panel\<close> the container is exactly the hint, 468 by 350, and the
  viewer gets exactly its minimum size, 400 by 300. On \<open>example_shrunk\<close>, the state of
  the counterexample, the next recomputation finds the lengths bounded and gives the
  viewer the width 0, its minimum.
\<close>

theorem viewer_keeps_minimum_size_witness:
  "sw (CentralWidget_minimumSizeHint example_hidden_panel) = 468
   \<and> sh (CentralWidget_minimumSizeHint example_hidden_panel) = 350
   \<and> width example_hidden_panel = 468
   \<and> height example_hidden_panel = 350
   \<and> length_s (splitter0 (updateGeometries example_hidden_panel))
       = length_s (splitter0 example_hidden_panel)
   \<and> \<not> visible (panel example_hidden_panel)
   \<and> length_s (splitter2 (updateGeometries example_hidden_panel))
       = length_s (splitter2 example_hidden_panel)
   \<and> minimumSizeHint (viewer example_hidden_panel) = \<lparr>sw = 400, sh = 300\<rparr>
   \<and> geometry (viewer (updateGeometries example_hidden_panel))
       = \<lparr>rx = 68, ry = 0, rw = 400, rh = 300\<rparr>
   \<and> nonNegative (geometry (toolbar (updateGeometries example_hidden_panel)))
   \<and> nonNegative (geometry (panel (updateGeometries example_hidden_panel)))
   \<and> nonNegative (geometry (console (updateGeometries example_hidden_panel)))
   \<and> sw (CentralWidget_minimumSizeHint example_shrunk) \<le> width example_shrunk
   \<and> sh (CentralWidget_minimumSizeHint example_shrunk) \<le> height example_shrunk
   \<and> length_s (splitter0 (updateGeometries example_shrunk)) = length_s (splitter0 example_shrunk)
   \<and> length_s (splitter1 (updateGeometries example_shrunk)) = length_s (splitter1 example_shrunk)
   \<and> length_s (splitter2 (updateGeometries example_shrunk)) = length_s (splitter2 example_shrunk)
   \<and> geometry (viewer (updateGeometries example_shrunk)) = \<lparr>rx = 68, ry = 0, rw = 0, rh = 600\<rparr>"
  using viewer_keeps_minimum_size [of example_hidden_panel]
    viewer_keeps_minimum_size [of example_shrunk]
  by (simp add: example_hidden_panel_eq example_shrunk_eq example_defs
      CentralWidget_minimumSizeHint_def QSize_add_def nonNegative_def)

text \<open>
  C2. With a container of 1000 by 800, margin 0, the toolbar hidden, the panel visible
  with a splitter of length 200 and the console visible with a splitter of length 200, a
  recomputation gives the viewer the rectangle (0, 0, 800, 600), the panel the
  rectangle (800, 0, 200, 800) and the console the rectangle (0, 600, 800, 200). The
  bounds of the splitters play no part in it.
\<close>

theorem scenario_1000_by_800:
  assumes "width cw = 1000" and "height cw = 800" and "margin cw = 0"
    and "\<not> visible (toolbar cw)"
    and "visible (panel cw)" and "length_s (splitter1 cw) = 200"
    and "visible (console cw)" and "length_s (splitter2 cw) = 200"
  shows "geometry (viewer (updateGeometries cw)) = \<lparr>rx = 0, ry = 0, rw = 800, rh = 600\<rparr>
    \<and> geometry (panel (updateGeometries cw)) = \<lparr>rx = 800, ry = 0, rw = 200, rh = 800\<rparr>
    \<and> geometry (console (updateGeometries cw)) = \<lparr>rx = 0, ry = 600, rw = 800, rh = 200\<rparr>"
  using assms
  by (simp add: updateGeometries_regions setGeometry_def toolbarExtent_def panelExtent_def
      consoleExtent_def)

theorem scenario_1000_by_800_witness:
  "width example_no_toolbar = 1000 \<and> height example_no_toolbar = 800
   \<and> margin example_no_toolbar = 0
   \<and> \<not> visible (toolbar example_no_toolbar)
   \<and> visible (panel example_no_toolbar)
   \<and> visible (console example_no_toolbar)
   \<and> length_s (splitter1 example_no_toolbar) = 200
   \<and> minimumLength (splitter1 example_no_toolbar) = 200
   \<and> maximumLength (splitter1 example_no_toolbar) = 1000
   \<and> length_s (splitter2 example_no_toolbar) = 200
   \<and> minimumLength (splitter2 example_no_toolbar) = 50
   \<and> geometry (viewer (updateGeometries example_no_toolbar))
       = \<lparr>rx = 0, ry = 0, rw = 800, rh = 600\<rparr>
   \<and> geometry (panel (updateGeometries example_no_toolbar))
       = \<lparr>rx = 800, ry = 0, rw = 200, rh = 800\<rparr>
   \<and> geometry (console (updateGeometries example_no_toolbar))
       = \<lparr>rx = 0, ry = 600, rw = 800, rh = 200\<rparr>"
  using scenario_1000_by_800 [of example_no_toolbar]
  by (simp add: example_no_toolbar_eq example_defs)

text \<open>
  C3. The claim: for every container size, margin, visibility and splitter lengths, the
  rectangles that a recomputation assigns to the regions never have a negative width or
  height; a configuration that does not fit is clamped to zero area.

  It fails on \<open>example_small\<close>, a central widget constructed at 100 by 30: the viewer
  gets the width -168 and the height -170. \<^verbatim>\<open>updateGeometries_\<close> passes differences of
  positions to \<^verbatim>\<open>setGeometry\<close> and clamps none of them.
\<close>

theorem negative_extent_counterexample:
  "rw (geometry (viewer example_small)) = - 168 \<and> rh (geometry (viewer example_small)) = - 170"
  by (simp add: example_small_eq)

text \<open>
  C3, amended. The four rectangles have non-negative width and height exactly when the
  container is at least twice the margin high, the margins and the visible satellites
  fit into the container along both axes, the splitter of each visible satellite has a
  non-negative length, and the margin is not positive if a satellite is hidden (a
  hidden satellite gets the extent \<open>- margin\<close>). Nothing is clamped: in every other
  configuration some region gets a negative extent.
\<close>

theorem nonnegative_extents_iff:
  "(nonNegative (geometry (toolbar (updateGeometries cw)))
    \<and> nonNegative (geometry (viewer (updateGeometries cw)))
    \<and> nonNegative (geometry (console (updateGeometries cw)))
    \<and> nonNegative (geometry (panel (updateGeometries cw))))
   = ((if visible (toolbar cw) then 0 \<le> length_s (splitter0 cw) else margin cw \<le> 0)
      \<and> (if visible (panel cw) then 0 \<le> length_s (splitter1 cw) else margin cw \<le> 0)
      \<and> (if visible (console cw) then 0 \<le> length_s (splitter2 cw) else margin cw \<le> 0)
      \<and> 2 * margin cw \<le> height cw
      \<and> 2 * margin cw + toolbarExtent cw + panelExtent cw \<le> width cw
      \<and> 2 * margin cw + consoleExtent cw \<le> height cw)"
  by (auto simp add: updateGeometries_regions setGeometry_def nonNegative_def toolbarExtent_def
      panelExtent_def consoleExtent_def split: if_splits)

theorem nonnegative_extents_iff_witness:
  "nonNegative (geometry (toolbar (updateGeometries example_initial)))
   \<and> nonNegative (geometry (viewer (updateGeometries example_initial)))
   \<and> nonNegative (geometry (console (updateGeometries example_initial)))
   \<and> nonNegative (geometry (panel (updateGeometries example_initial)))
   \<and> visible (toolbar example_initial) \<and> 0 \<le> length_s (splitter0 example_initial)
   \<and> 2 * margin example_initial + toolbarExtent example_initial + panelExtent example_initial
       \<le> width example_initial
   \<and> \<not> nonNegative (geometry (viewer (updateGeometries example_small)))
   \<and> \<not> 2 * margin example_small + toolbarExtent example_small + panelExtent example_small
       \<le> width example_small"
  using nonnegative_extents_iff [of example_initial] nonnegative_extents_iff [of example_small]
  by (simp add: example_initial_eq example_small_eq example_defs nonNegative_def)

text \<open>
  C4. The claim: a recomputation is idempotent; in every reachable state a second
  recomputation right after a first one leaves every rectangle and every splitter as the
  first one left them.

  It fails on \<open>example_shrunk\<close>, the state that the recomputation of the resize event
  leaves: that recomputation read the panel's width, 500, from the length of the
  splitter before it bounded the length by 332, and a second recomputation gives the
  panel the width 332.
\<close>

theorem second_recomputation_counterexample:
  "rw (geometry (panel example_shrunk)) = 500
   \<and> length_s (splitter1 example_shrunk) = 332
   \<and> rw (geometry (panel (updateGeometries example_shrunk))) = 332"
  by (simp add: example_shrunk_eq example_defs)

text \<open>
  C4, amended. When a recomputation leaves the lengths of the three splitters as it
  found them, a second recomputation right after it changes nothing at all.
\<close>

theorem second_recomputation_changes_nothing:
  assumes l0: "length_s (splitter0 (updateGeometries cw)) = length_s (splitter0 cw)"
    and l1: "length_s (splitter1 (updateGeometries cw)) = length_s (splitter1 cw)"
    and l2: "length_s (splitter2 (updateGeometries cw)) = length_s (splitter2 cw)"
  shows "updateGeometries (updateGeometries cw) = updateGeometries cw"
proof (rule CentralWidget.equality)
  note ext = extents_updateGeometries [OF l0 l1 l2]
  have v: "visible (toolbar (updateGeometries cw)) = visible (toolbar cw)"
    "visible (panel (updateGeometries cw)) = visible (panel cw)"
    "visible (console (updateGeometries cw)) = visible (console cw)"
    "minimumSizeHint (viewer (updateGeometries cw)) = minimumSizeHint (viewer cw)"
    by (simp_all add: updateGeometries_regions setGeometry_def)
  show "toolbar (updateGeometries (updateGeometries cw)) = toolbar (updateGeometries cw)"
    by (simp add: updateGeometries_regions [of "updateGeometries cw"] ext)
       (simp add: updateGeometries_regions setGeometry_def)
  show "viewer (updateGeometries (updateGeometries cw)) = viewer (updateGeometries cw)"
    by (simp add: updateGeometries_regions [of "updateGeometries cw"] ext)
       (simp add: updateGeometries_regions setGeometry_def)
  show "console (updateGeometries (updateGeometries cw)) = console (updateGeometries cw)"
    by (simp add: updateGeometries_regions [of "updateGeometries cw"] ext)
       (simp add: updateGeometries_regions setGeometry_def)
  show "panel (updateGeometries (updateGeometries cw)) = panel (updateGeometries cw)"
    by (simp add: updateGeometries_regions [of "updateGeometries cw"] ext)
       (simp add: updateGeometries_regions setGeometry_def)
  show "splitter0 (updateGeometries (updateGeometries cw)) = splitter0 (updateGeometries cw)"
    using l0
    by (simp add: updateGeometries_splitters(1) [of "updateGeometries cw"] ext v)
       (simp add: updateGeometries_splitters(1) [of cw] placed_twice_idem)
  show "splitter1 (updateGeometries (updateGeometries cw)) = splitter1 (updateGeometries cw)"
    using l1
    by (simp add: updateGeometries_splitters(2) [of "updateGeometries cw"] ext v)
       (simp add: updateGeometries_splitters(2) [of cw] placed_twice_idem)
  show "splitter2 (updateGeometries (updateGeometries cw)) = splitter2 (updateGeometries cw)"
    using l2
    by (simp add: updateGeometries_splitters(3) [of "updateGeometries cw"] ext v)
       (simp add: updateGeometries_splitters(3) [of cw] placed_twice_idem)
qed simp_all

text \<open>On \<open>example_shrunk\<close> the second recomputation leaves the lengths alone, so the third
  one changes nothing.\<close>

theorem second_recomputation_changes_nothing_witness:
  "length_s (splitter0 (updateGeometries example_shrunk)) = length_s (splitter0 example_shrunk)
   \<and> length_s (splitter1 (updateGeometries example_shrunk)) = length_s (splitter1 example_shrunk)
   \<and> length_s (splitter2 (updateGeometries example_shrunk)) = length_s (splitter2 example_shrunk)
   \<and> updateGeometries (updateGeometries example_shrunk) = updateGeometries example_shrunk"
proof -
  have l: "length_s (splitter0 (updateGeometries example_shrunk)) = length_s (splitter0 example_shrunk)"
    "length_s (splitter1 (updateGeometries example_shrunk)) = length_s (splitter1 example_shrunk)"
    "length_s (splitter2 (updateGeometries example_shrunk)) = length_s (splitter2 example_shrunk)"
    by (simp_all add: example_shrunk_eq example_defs)
  show ?thesis
    using l second_recomputation_changes_nothing [OF l] by simp
qed

text \<open>
  C5. The claim: after every mutation of a splitter's length or of its bounds
  (\<^verbatim>\<open>setLength\<close>, \<^verbatim>\<open>setMinimumLength\<close>, \<^verbatim>\<open>setMaximumLength\<close>, \<^verbatim>\<open>setLengthRange\<close>, the
  constructor, a drag), the minimum is at most the length and the length at most the
  maximum.

  It fails when a bound is moved past the other one, which no setter prevents: with the
  maximum 100 set on the panel's splitter, whose minimum is 200, no length can lie
  between them.
\<close>

theorem length_in_range_counterexample:
  "minimumLength (setMaximumLength 100 (Splitter_new Left True 200 200 2147483647)) = 200
   \<and> length_s (setMaximumLength 100 (Splitter_new Left True 200 200 2147483647)) = 100
   \<and> maximumLength (setMaximumLength 100 (Splitter_new Left True 200 200 2147483647)) = 100"
  by (simp add: clamp_def)

text \<open>
  C5, amended. After every such mutation the length lies between the minimum and the
  maximum whenever the bounds that are in force after the mutation are ordered; every
  mutation clamps, none signals an error. The drag is covered twice: by the assignment
  that \<^verbatim>\<open>mouseMoveEvent\<close> makes itself (\<open>dragLength\<close>), and by the state of every
  splitter after the recomputation that the event triggers.
\<close>

theorem length_in_range_after_mutation:
  assumes "s' = Splitter_new d r l mn mx
      \<or> s' = setLength v s
      \<or> s' = setMinimumLength v s
      \<or> s' = setMaximumLength v s
      \<or> s' = setLengthRange lo hi s
      \<or> dragLength e s = Some s'
      \<or> (LeftButton \<in> buttons e \<and> mouseMoveEvent i e cw = Some cw' \<and> s' = splitters cw' j)"
    and "minimumLength s' \<le> maximumLength s'"
  shows "minimumLength s' \<le> length_s s' \<and> length_s s' \<le> maximumLength s'"
proof -
  consider (new) "s' = Splitter_new d r l mn mx"
    | (len) "s' = setLength v s"
    | (mn) "s' = setMinimumLength v s"
    | (mx) "s' = setMaximumLength v s"
    | (range) "s' = setLengthRange lo hi s"
    | (drag) "dragLength e s = Some s'"
    | (move) "LeftButton \<in> buttons e" "mouseMoveEvent i e cw = Some cw'" "s' = splitters cw' j"
    using assms(1) by blast
  then show ?thesis
  proof cases
    case new
    then show ?thesis using assms(2) by (simp add: clamp_within)
  next
    case len
    then show ?thesis using assms(2) by (simp add: clamp_within)
  next
    case mn
    then show ?thesis using assms(2) by (simp add: clamp_within)
  next
    case mx
    then show ?thesis using assms(2) by (simp add: clamp_within)
  next
    case range
    then show ?thesis using assms(2) by (simp add: setLengthRange_def clamp_within)
  next
    case drag
    from dragLength_Some [OF drag] obtain u where
      "minimumLength s' = minimumLength s" "maximumLength s' = maximumLength s"
      "length_s s' = clamp u (minimumLength s) (maximumLength s)"
      by blast
    then show ?thesis using assms(2) by (simp add: clamp_within)
  next
    case move
    from move(1,2) obtain c where "cw' = updateGeometries c"
      by (auto simp add: mouseMoveEvent_def split: option.splits)
    then show ?thesis
      using assms(2) move(3) updateGeometries_in_range [of c j] by simp
  qed
qed

theorem length_in_range_after_mutation_witness:
  "minimumLength (setLength 5000 (Splitter_new Left True 200 200 932))
     \<le> maximumLength (setLength 5000 (Splitter_new Left True 200 200 932))
   \<and> length_s (setLength 5000 (Splitter_new Left True 200 200 932)) = 932
   \<and> minimumLength (setLength 5000 (Splitter_new Left True 200 200 932)) = 200
   \<and> maximumLength (setLength 5000 (Splitter_new Left True 200 200 932)) = 932"
  using length_in_range_after_mutation
    [of "setLength 5000 (Splitter_new Left True 200 200 932)" Left True 200 200 932 5000
       "Splitter_new Left True 200 200 932"]
  by (simp add: clamp_def)

text \<open>
  C6. For bounds with \<open>minimumLength \<le> maximumLength\<close> and every requested value,
  \<^verbatim>\<open>setLength\<close> stores a length within the bounds, and leaves the bounds as they are.
\<close>

theorem setLength_within_bounds:
  assumes "minimumLength s \<le> maximumLength s"
  shows "minimumLength s \<le> length_s (setLength v s)
    \<and> length_s (setLength v s) \<le> maximumLength s
    \<and> minimumLength (setLength v s) = minimumLength s
    \<and> maximumLength (setLength v s) = maximumLength s"
  using assms by (simp add: clamp_within)

theorem setLength_within_bounds_witness:
  "minimumLength (Splitter_new Top True 200 50 800) \<le> maximumLength (Splitter_new Top True 200 50 800)
   \<and> length_s (setLength 1000000000 (Splitter_new Top True 200 50 800)) = 800
   \<and> length_s (setLength (- 1000000000) (Splitter_new Top True 200 50 800)) = 50
   \<and> length_s (setLength 300 (Splitter_new Top True 200 50 800)) = 300"
  using setLength_within_bounds [of "Splitter_new Top True 200 50 800" 1000000000]
    setLength_within_bounds [of "Splitter_new Top True 200 50 800" "- 1000000000"]
    setLength_within_bounds [of "Splitter_new Top True 200 50 800" 300]
  by (simp add: clamp_def)

text \<open>
  C7. The claim: hiding one satellite and showing it again, with nothing else changed in
  between, restores exactly the rectangles of all regions and splitters.

  It fails on \<open>example_shrunk\<close>, where the rectangles are those of the lengths before the
  resize: hiding the panel and showing it again gives the panel the width 332 instead
  of 500.
\<close>

theorem toggle_round_trip_counterexample:
  "rw (geometry (panel example_shrunk)) = 500
   \<and> visible (panel example_shrunk)
   \<and> rw (geometry (panel (toggled Panel True (toggled Panel False example_shrunk)))) = 332"
  by (simp add: example_shrunk_eq example_defs toggled_def)

text \<open>
  C7, amended. Hiding a visible satellite and showing it again restores the whole state,
  the rectangles of the four regions and of the three splitters among it, when the state
  before is one that a recomputation leaves as it is, and when no splitter's length is
  clamped while the satellite is hidden: each length lies between its minimum and the
  maximum that the recomputation of the hiding assigns.
\<close>

theorem toggle_round_trip:
  assumes settled: "updateGeometries cw = cw"
    and vis: "visible (satellite r cw)"
    and u0: "minimumLength (splitter0 cw) \<le> length_s (splitter0 cw)"
      "length_s (splitter0 cw) \<le> maximumLength (splitter0 (toggled r False cw))"
    and u1: "minimumLength (splitter1 cw) \<le> length_s (splitter1 cw)"
      "length_s (splitter1 cw) \<le> maximumLength (splitter1 (toggled r False cw))"
    and u2: "minimumLength (splitter2 cw) \<le> length_s (splitter2 cw)"
      "length_s (splitter2 cw) \<le> maximumLength (splitter2 (toggled r False cw))"
  shows "toggled r True (toggled r False cw) = cw"
proof (cases r)
  case Toolbar
  let ?off = "cw\<lparr>toolbar := (toolbar cw)\<lparr>visible := False\<rparr>\<rparr>"
  let ?c1 = "updateGeometries ?off"
  let ?on = "?c1\<lparr>toolbar := (toolbar ?c1)\<lparr>visible := True\<rparr>\<rparr>"
  have tv: "visible (toolbar cw)"
    using vis Toolbar by (simp add: satellite_def)
  have "updateGeometries ?on = updateGeometries cw"
  proof (rule updateGeometries_cong)
    show "\<And>g. (toolbar ?on)\<lparr>geometry := g\<rparr> = (toolbar cw)\<lparr>geometry := g\<rparr>"
      using tv by (simp add: updateGeometries_regions setGeometry_def visible_update_same)
    show "\<And>a x y l.
        setMaximumLengthTwice a (placeSplitter (visible (toolbar cw)) x y l (splitter0 ?on))
        = setMaximumLengthTwice a (placeSplitter (visible (toolbar cw)) x y l (splitter0 cw))"
      using u0 tv Toolbar
      by (simp add: toggled_def maximumLength_updateGeometries updateGeometries_splitters
          placed_after_unclamped)
    show "\<And>a x y l.
        setMaximumLengthTwice a (placeSplitter (visible (panel cw)) x y l (splitter1 ?on))
        = setMaximumLengthTwice a (placeSplitter (visible (panel cw)) x y l (splitter1 cw))"
      using u1 Toolbar
      by (simp add: toggled_def maximumLength_updateGeometries updateGeometries_splitters
          placed_after_unclamped)
    show "\<And>a x y l.
        setMaximumLengthTwice a (placeSplitter (visible (console cw)) x y l (splitter2 ?on))
        = setMaximumLengthTwice a (placeSplitter (visible (console cw)) x y l (splitter2 cw))"
      using u2 Toolbar
      by (simp add: toggled_def maximumLength_updateGeometries updateGeometries_splitters
          placed_after_unclamped)
    show "length_s (splitter0 ?on) = length_s (splitter0 cw)"
      using u0 Toolbar
      by (simp add: toggled_def maximumLength_updateGeometries updateGeometries_splitters
          clamp_def)
    show "length_s (splitter1 ?on) = length_s (splitter1 cw)"
      using u1 Toolbar
      by (simp add: toggled_def maximumLength_updateGeometries updateGeometries_splitters
          clamp_def)
    show "length_s (splitter2 ?on) = length_s (splitter2 cw)"
      using u2 Toolbar
      by (simp add: toggled_def maximumLength_updateGeometries updateGeometries_splitters
          clamp_def)
  qed (simp_all add: updateGeometries_regions setGeometry_def)
  then show ?thesis
    using settled Toolbar by (simp add: toggled_def)
next
  case Panel
  let ?off = "cw\<lparr>panel := (panel cw)\<lparr>visible := False\<rparr>\<rparr>"
  let ?c1 = "updateGeometries ?off"
  let ?on = "?c1\<lparr>panel := (panel ?c1)\<lparr>visible := True\<rparr>\<rparr>"
  have pv: "visible (panel cw)"
    using vis Panel by (simp add: satellite_def)
  have "updateGeometries ?on = updateGeometries cw"
  proof (rule updateGeometries_cong)
    show "\<And>g. (panel ?on)\<lparr>geometry := g\<rparr> = (panel cw)\<lparr>geometry := g\<rparr>"
      using pv by (simp add: updateGeometries_regions setGeometry_def visible_update_same)
    show "\<And>a x y l.
        setMaximumLengthTwice a (placeSplitter (visible (toolbar cw)) x y l (splitter0 ?on))
        = setMaximumLengthTwice a (placeSplitter (visible (toolbar cw)) x y l (splitter0 cw))"
      using u0 Panel
      by (simp add: toggled_def maximumLength_updateGeometries updateGeometries_splitters
          placed_after_unclamped)
    show "\<And>a x y l.
        setMaximumLengthTwice a (placeSplitter (visible (panel cw)) x y l (splitter1 ?on))
        = setMaximumLengthTwice a (placeSplitter (visible (panel cw)) x y l (splitter1 cw))"
      using u1 pv Panel
      by (simp add: toggled_def maximumLength_updateGeometries updateGeometries_splitters
          placed_after_unclamped)
    show "\<And>a x y l.
        setMaximumLengthTwice a (placeSplitter (visible (console cw)) x y l (splitter2 ?on))
        = setMaximumLengthTwice a (placeSplitter (visible (console cw)) x y l (splitter2 cw))"
      using u2 Panel
      by (simp add: toggled_def maximumLength_updateGeometries updateGeometries_splitters
          placed_after_unclamped)
    show "length_s (splitter0 ?on) = length_s (splitter0 cw)"
      using u0 Panel
      by (simp add: toggled_def maximumLength_updateGeometries updateGeometries_splitters
          clamp_def)
    show "length_s (splitter1 ?on) = length_s (splitter1 cw)"
      using u1 Panel
      by (simp add: toggled_def maximumLength_updateGeometries updateGeometries_splitters
          clamp_def)
    show "length_s (splitter2 ?on) = length_s (splitter2 cw)"
      using u2 Panel
      by (simp add: toggled_def maximumLength_updateGeometries updateGeometries_splitters
          clamp_def)
  qed (simp_all add: updateGeometries_regions setGeometry_def)
  then show ?thesis
    using settled Panel by (simp add: toggled_def)
next
  case Console
  let ?off = "cw\<lparr>console := (console cw)\<lparr>visible := False\<rparr>\<rparr>"
  let ?c1 = "updateGeometries ?off"
  let ?on = "?c1\<lparr>console := (console ?c1)\<lparr>visible := True\<rparr>\<rparr>"
  have cv: "visible (console cw)"
    using vis Console by (simp add: satellite_def)
  have "updateGeometries ?on = updateGeometries cw"
  proof (rule updateGeometries_cong)
    show "\<And>g. (console ?on)\<lparr>geometry := g\<rparr> = (console cw)\<lparr>geometry := g\<rparr>"
      using cv by (simp add: updateGeometries_regions setGeometry_def visible_update_same)
    show "\<And>a x y l.
        setMaximumLengthTwice a (placeSplitter (visible (toolbar cw)) x y l (splitter0 ?on))
        = setMaximumLengthTwice a (placeSplitter (visible (toolbar cw)) x y l (splitter0 cw))"
      using u0 Console
      by (simp add: toggled_def maximumLength_updateGeometries updateGeometries_splitters
          placed_after_unclamped)
    show "\<And>a x y l.
        setMaximumLengthTwice a (placeSplitter (visible (panel cw)) x y l (splitter1 ?on))
        = setMaximumLengthTwice a (placeSplitter (visible (panel cw)) x y l (splitter1 cw))"
      using u1 Console
      by (simp add: toggled_def maximumLength_updateGeometries updateGeometries_splitters
          placed_after_unclamped)
    show "\<And>a x y l.
        setMaximumLengthTwice a (placeSplitter (visible (console cw)) x y l (splitter2 ?on))
        = setMaximumLengthTwice a (placeSplitter (visible (console cw)) x y l (splitter2 cw))"
      using u2 cv Console
      by (simp add: toggled_def maximumLength_updateGeometries updateGeometries_splitters
          placed_after_unclamped)
    show "length_s (splitter0 ?on) = length_s (splitter0 cw)"
      using u0 Console
      by (simp add: toggled_def maximumLength_updateGeometries updateGeometries_splitters
          clamp_def)
    show "length_s (splitter1 ?on) = length_s (splitter1 cw)"
      using u1 Console
      by (simp add: toggled_def maximumLength_updateGeometries updateGeometries_splitters
          clamp_def)
    show "length_s (splitter2 ?on) = length_s (splitter2 cw)"
      using u2 Console
      by (simp add: toggled_def maximumLength_updateGeometries updateGeometries_splitters
          clamp_def)
  qed (simp_all add: updateGeometries_regions setGeometry_def)
  then show ?thesis
    using settled Console by (simp add: toggled_def)
qed

theorem toggle_round_trip_witness:
  "updateGeometries example_initial = example_initial
   \<and> visible (satellite Panel example_initial)
   \<and> rw (geometry (viewer example_initial)) = 732
   \<and> rw (geometry (viewer (toggled Panel False example_initial))) = 932
   \<and> maximumLength (splitter0 (toggled Panel False example_initial)) = 1000
   \<and> toggled Panel True (toggled Panel False example_initial) = example_initial"
proof -
  have a: "updateGeometries example_initial = example_initial"
    by (simp add: example_initial_eq example_defs)
  have b: "visible (satellite Panel example_initial)"
    by (simp add: example_initial_eq satellite_def)
  have c: "minimumLength (splitter0 example_initial) \<le> length_s (splitter0 example_initial)"
    "length_s (splitter0 example_initial)
       \<le> maximumLength (splitter0 (toggled Panel False example_initial))"
    "minimumLength (splitter1 example_initial) \<le> length_s (splitter1 example_initial)"
    "length_s (splitter1 example_initial)
       \<le> maximumLength (splitter1 (toggled Panel False example_initial))"
    "minimumLength (splitter2 example_initial) \<le> length_s (splitter2 example_initial)"
    "length_s (splitter2 example_initial)
       \<le> maximumLength (splitter2 (toggled Panel False example_initial))"
    by (simp_all add: example_initial_eq example_defs toggled_def)
  have d: "rw (geometry (viewer example_initial)) = 732"
    "rw (geometry (viewer (toggled Panel False example_initial))) = 932"
    "maximumLength (splitter0 (toggled Panel False example_initial)) = 1000"
    by (simp_all add: example_initial_eq example_defs toggled_def)
  show ?thesis
    using a b d toggle_round_trip [OF a b c] by simp
qed

lemma example_returned_eval:
  "mouseMoveEvent Splitter1
     (pointerEvent (splitter1 example_dragged) \<lparr>px = 800, py = 7\<rparr> LeftButton {LeftButton})
     example_dragged = Some example_returned"
  "maximumLength (splitter1 example_returned) = 932"
  "geometry (splitter1 example_returned) = \<lparr>rx = 795, ry = 0, rw = 10, rh = 800\<rparr>"
  by (simp_all add: example_returned_def example_dragged_eq example_defs pointerEvent_def
      mapFromParent_def)

lemma example_pressed_eval:
  "pointerEvent (splitter1 example_initial) \<lparr>px = 800, py = 7\<rparr> LeftButton {LeftButton}
     = leftButtonAt 5 7"
  "pointerEvent
     (splitter1 (pressed Splitter1 (leftButtonAt 5 7) example_initial))
     \<lparr>px = 500, py = 7\<rparr> LeftButton {LeftButton} = leftButtonAt (- 295) 7"
  "pos (pointerEvent (splitter1 example_dragged) \<lparr>px = 800, py = 7\<rparr> LeftButton {LeftButton})
     = \<lparr>px = 305, py = 7\<rparr>"
  by (simp_all add: example_initial_eq example_dragged_eq pointerEvent_def mapFromParent_def
      leftButtonAt_def pressed_def splitters_def splitters_update_def mousePressEvent_def)

text \<open>
  C8. The pointer is followed in the coordinates of the central widget; each event
  reaches the splitter with the pointer's position relative to the splitter's geometry
  at that moment. During one press of the panel's splitter at \<open>p0\<close>, each move sets
  the length to the length at the press plus the total offset of the pointer along the
  drag axis for the directions Right and Bottom, minus the total offset for Left and
  Top, clamped to the bounds then in force, and the recomputation that the move
  triggers clamps the result to the maximum it assigns: so does the move to \<open>p1\<close>, by
  \<open>d\<close> along the drag axis, and so does the move to \<open>p2\<close>, back to the coordinate of the
  press, whose total offset is 0. The move back returns the length to its value at the
  press, provided no clamping takes place on the way back: the length at the press
  lies between the minimum and the maxima in force when the move back is handled and
  after it. Both moves return a state, since the press has stored the length and the
  coordinate they read.
\<close>

theorem panel_drag_round_trip:
  assumes pressed: "cwp = pressed Splitter1 (pointerEvent (splitter1 cw) p0 LeftButton bs0) cw"
    and held: "LeftButton \<in> bs1" "LeftButton \<in> bs2"
    and forth: "axisCoordinate (splitter1 cw) p1 = axisCoordinate (splitter1 cw) p0 + d"
    and return: "axisCoordinate (splitter1 cw) p2 = axisCoordinate (splitter1 cw) p0"
  shows "\<exists>s1 c1 s2 c2.
      dragLength (pointerEvent (splitter1 cwp) p1 b1 bs1) (splitter1 cwp) = Some s1
      \<and> length_s s1 =
          clamp (if direction (splitter1 cw) = Right \<or> direction (splitter1 cw) = Bottom
                 then length_s (splitter1 cw) + d else length_s (splitter1 cw) - d)
            (minimumLength (splitter1 cw)) (maximumLength (splitter1 cw))
      \<and> c1 = updateGeometries (splitters_update Splitter1 s1 cwp)
      \<and> mouseMoveEvent Splitter1 (pointerEvent (splitter1 cwp) p1 b1 bs1) cwp = Some c1
      \<and> length_s (splitter1 c1) =
          clamp (clamp (length_s s1) (minimumLength (splitter1 cw)) (maximumLength (splitter1 c1)))
            (minimumLength (splitter1 cw)) (maximumLength (splitter1 c1))
      \<and> dragLength (pointerEvent (splitter1 c1) p2 b2 bs2) (splitter1 c1) = Some s2
      \<and> length_s s2 =
          clamp (if direction (splitter1 cw) = Right \<or> direction (splitter1 cw) = Bottom
                 then length_s (splitter1 cw) + 0 else length_s (splitter1 cw) - 0)
            (minimumLength (splitter1 cw)) (maximumLength (splitter1 c1))
      \<and> c2 = updateGeometries (splitters_update Splitter1 s2 c1)
      \<and> mouseMoveEvent Splitter1 (pointerEvent (splitter1 c1) p2 b2 bs2) c1 = Some c2
      \<and> length_s (splitter1 c2) =
          clamp (clamp (length_s s2) (minimumLength (splitter1 cw)) (maximumLength (splitter1 c2)))
            (minimumLength (splitter1 cw)) (maximumLength (splitter1 c2))
      \<and> (minimumLength (splitter1 cw) \<le> length_s (splitter1 cw)
           \<and> length_s (splitter1 cw) \<le> maximumLength (splitter1 c1)
           \<and> length_s (splitter1 cw) \<le> maximumLength (splitter1 c2)
         \<longrightarrow> length_s (splitter1 c2) = length_s (splitter1 cw))"
proof -
  let ?L = "length_s (splitter1 cw)"
  let ?z0 = "axisCoordinate (splitter1 cw) p0"
  let ?sp = "(splitter1 cw)\<lparr>isPressed := True, lengthOnPress := Some ?L, zOnPress := Some ?z0\<rparr>"
  have p: "splitter1 cwp = ?sp"
    by (simp add: pressed pressed_def splitters_def splitters_update_def mousePressEvent_def
        splitter_z_pointerEvent)
  have ap: "axisCoordinate ?sp q = axisCoordinate (splitter1 cw) q" for q
    by (rule axisCoordinate_direction) simp
  define s1 where "s1 = ?sp\<lparr>length_s :=
      clamp (if direction (splitter1 cw) = Right \<or> direction (splitter1 cw) = Bottom
             then ?L + d else ?L - d)
        (minimumLength (splitter1 cw)) (maximumLength (splitter1 cw))\<rparr>"
  have d1: "dragLength (pointerEvent (splitter1 cwp) p1 b1 bs1) (splitter1 cwp) = Some s1"
    by (simp add: p dragLength_def Let_def splitter_z_pointerEvent ap forth s1_def)
  have l1: "length_s s1 =
      clamp (if direction (splitter1 cw) = Right \<or> direction (splitter1 cw) = Bottom
             then ?L + d else ?L - d)
        (minimumLength (splitter1 cw)) (maximumLength (splitter1 cw))"
    by (simp add: s1_def)
  define c1 where "c1 = updateGeometries (splitters_update Splitter1 s1 cwp)"
  have m1: "mouseMoveEvent Splitter1 (pointerEvent (splitter1 cwp) p1 b1 bs1) cwp = Some c1"
    using held(1) d1 by (simp add: mouseMoveEvent_def splitters_def c1_def)
  have f1: "lengthOnPress (splitter1 c1) = Some ?L" "zOnPress (splitter1 c1) = Some ?z0"
    "direction (splitter1 c1) = direction (splitter1 cw)"
    "minimumLength (splitter1 c1) = minimumLength (splitter1 cw)"
    by (simp_all add: c1_def updateGeometries_splitters splitters_update_def s1_def)
  have len1: "length_s (splitter1 c1) =
      clamp (clamp (length_s s1) (minimumLength (splitter1 cw)) (maximumLength (splitter1 c1)))
        (minimumLength (splitter1 cw)) (maximumLength (splitter1 c1))"
    by (simp add: c1_def updateGeometries_splitters splitters_update_def s1_def)
  have a1: "axisCoordinate (splitter1 c1) q = axisCoordinate (splitter1 cw) q" for q
    by (rule axisCoordinate_direction) (simp add: f1)
  define s2 where "s2 = (splitter1 c1)\<lparr>length_s :=
      clamp ?L (minimumLength (splitter1 cw)) (maximumLength (splitter1 c1))\<rparr>"
  have d2: "dragLength (pointerEvent (splitter1 c1) p2 b2 bs2) (splitter1 c1) = Some s2"
    by (simp add: dragLength_def Let_def f1 splitter_z_pointerEvent a1 return s2_def)
  have l2: "length_s s2 =
      clamp (if direction (splitter1 cw) = Right \<or> direction (splitter1 cw) = Bottom
             then ?L + 0 else ?L - 0)
        (minimumLength (splitter1 cw)) (maximumLength (splitter1 c1))"
    by (simp add: s2_def)
  define c2 where "c2 = updateGeometries (splitters_update Splitter1 s2 c1)"
  have m2: "mouseMoveEvent Splitter1 (pointerEvent (splitter1 c1) p2 b2 bs2) c1 = Some c2"
    using held(2) d2 by (simp add: mouseMoveEvent_def splitters_def c2_def)
  have len2: "length_s (splitter1 c2) =
      clamp (clamp (length_s s2) (minimumLength (splitter1 cw)) (maximumLength (splitter1 c2)))
        (minimumLength (splitter1 cw)) (maximumLength (splitter1 c2))"
    by (simp add: c2_def updateGeometries_splitters splitters_update_def s2_def f1)
  have "length_s (splitter1 c2) = ?L"
    if "minimumLength (splitter1 cw) \<le> ?L" "?L \<le> maximumLength (splitter1 c1)"
      "?L \<le> maximumLength (splitter1 c2)"
    using that by (simp add: len2 s2_def clamp_inside)
  then show ?thesis
    using d1 l1 c1_def m1 len1 d2 l2 c2_def m2 len2 by blast
qed

text \<open>
  On \<open>example_initial\<close> the splitter lies at 795 and the pointer is pressed at 800. The
  move to 500 takes the length from 200 to 500 and the splitter to 495; the move back
  to 800 reaches the splitter at the relative position 305 and takes the length back to
  200 and the splitter back to 795.
\<close>

theorem panel_drag_round_trip_witness:
  "geometry (splitter1 example_initial) = \<lparr>rx = 795, ry = 0, rw = 10, rh = 800\<rparr>
   \<and> direction (splitter1 example_initial) = Left
   \<and> length_s (splitter1 example_initial) = 200
   \<and> axisCoordinate (splitter1 example_initial) \<lparr>px = 500, py = 7\<rparr>
       = axisCoordinate (splitter1 example_initial) \<lparr>px = 800, py = 7\<rparr> + (- 300)
   \<and> mouseMoveEvent Splitter1
        (pointerEvent (splitter1 (pressed Splitter1 (leftButtonAt 5 7) example_initial))
           \<lparr>px = 500, py = 7\<rparr> LeftButton {LeftButton})
        (pressed Splitter1 (leftButtonAt 5 7) example_initial)
       = Some example_dragged
   \<and> length_s (splitter1 example_dragged) = 500
   \<and> geometry (splitter1 example_dragged) = \<lparr>rx = 495, ry = 0, rw = 10, rh = 800\<rparr>
   \<and> minimumLength (splitter1 example_initial) \<le> length_s (splitter1 example_initial)
   \<and> length_s (splitter1 example_initial) \<le> maximumLength (splitter1 example_dragged)
   \<and> mouseMoveEvent Splitter1
        (pointerEvent (splitter1 example_dragged) \<lparr>px = 800, py = 7\<rparr> LeftButton {LeftButton})
        example_dragged = Some example_returned
   \<and> length_s (splitter1 example_initial) \<le> maximumLength (splitter1 example_returned)
   \<and> geometry (splitter1 example_returned) = \<lparr>rx = 795, ry = 0, rw = 10, rh = 800\<rparr>
   \<and> length_s (splitter1 example_returned) = 200"
proof -
  let ?p = "pressed Splitter1 (leftButtonAt 5 7) example_initial"
  have i: "geometry (splitter1 example_initial) = \<lparr>rx = 795, ry = 0, rw = 10, rh = 800\<rparr>"
    "direction (splitter1 example_initial) = Left"
    "length_s (splitter1 example_initial) = 200"
    "minimumLength (splitter1 example_initial) = 200"
    by (simp_all add: example_initial_eq)
  have g: "length_s (splitter1 example_dragged) = 500"
    "maximumLength (splitter1 example_dragged) = 932"
    "geometry (splitter1 example_dragged) = \<lparr>rx = 495, ry = 0, rw = 10, rh = 800\<rparr>"
    by (simp_all add: example_dragged_eq)
  have pr: "?p = pressed Splitter1
      (pointerEvent (splitter1 example_initial) \<lparr>px = 800, py = 7\<rparr> LeftButton {LeftButton})
      example_initial"
    by (simp add: example_pressed_eval)
  have forth: "axisCoordinate (splitter1 example_initial) \<lparr>px = 500, py = 7\<rparr>
      = axisCoordinate (splitter1 example_initial) \<lparr>px = 800, py = 7\<rparr> + (- 300)"
    by (simp add: axisCoordinate_def orientation_def i)
  have m1: "mouseMoveEvent Splitter1
      (pointerEvent (splitter1 ?p) \<lparr>px = 500, py = 7\<rparr> LeftButton {LeftButton}) ?p
      = Some example_dragged"
    by (simp add: example_pressed_eval example_dragged_returns)
  from panel_drag_round_trip [OF pr _ _ forth refl,
      of "{LeftButton}" "{LeftButton}" LeftButton LeftButton]
  obtain c1 c2 where
    c1: "mouseMoveEvent Splitter1
      (pointerEvent (splitter1 ?p) \<lparr>px = 500, py = 7\<rparr> LeftButton {LeftButton}) ?p = Some c1"
    and c2: "mouseMoveEvent Splitter1
      (pointerEvent (splitter1 c1) \<lparr>px = 800, py = 7\<rparr> LeftButton {LeftButton}) c1 = Some c2"
    and rt: "minimumLength (splitter1 example_initial) \<le> length_s (splitter1 example_initial)
           \<and> length_s (splitter1 example_initial) \<le> maximumLength (splitter1 c1)
           \<and> length_s (splitter1 example_initial) \<le> maximumLength (splitter1 c2)
         \<longrightarrow> length_s (splitter1 c2) = length_s (splitter1 example_initial)"
    by blast
  have e1: "c1 = example_dragged"
    using c1 m1 by simp
  have e2: "c2 = example_returned"
    using c2 by (simp add: e1 example_returned_eval)
  have "length_s (splitter1 example_returned) = 200"
    using rt by (simp add: e1 e2 i g example_returned_eval)
  then show ?thesis
    using i g forth m1 by (simp add: example_returned_eval)
qed

lemma widthCall_widthsOrdered: "widthsOrdered s \<Longrightarrow> widthsOrdered (widthCall s c)"
  by (cases c) (auto simp: widthsOrdered_def setGrabWidth_def setHighlightWidth_def Let_def)

lemma foldl_widthCall_widthsOrdered:
  "widthsOrdered s \<Longrightarrow> widthsOrdered (foldl widthCall s cs)"
  by (induction cs arbitrary: s) (simp_all add: widthCall_widthsOrdered)

text \<open>
  C9. After any sequence of calls of \<^verbatim>\<open>setGrabWidth\<close> and \<^verbatim>\<open>setHighlightWidth\<close> on a
  newly constructed splitter (grab width 10, highlight width 4), the highlight width is
  at most the grab width and not negative.
\<close>

theorem widths_ordered_after_calls:
  "highlightWidth (foldl widthCall (Splitter_new d r l mn mx) cs)
     \<le> grabWidth (foldl widthCall (Splitter_new d r l mn mx) cs)
   \<and> 0 \<le> highlightWidth (foldl widthCall (Splitter_new d r l mn mx) cs)"
proof -
  have "widthsOrdered (Splitter_new d r l mn mx)"
    by (simp add: widthsOrdered_def)
  then have "widthsOrdered (foldl widthCall (Splitter_new d r l mn mx) cs)"
    by (rule foldl_widthCall_widthsOrdered)
  then show ?thesis
    by (simp add: widthsOrdered_def)
qed

theorem widths_ordered_after_calls_witness:
  "grabWidth (foldl widthCall (Splitter_new Left True 200 200 932)
      [SetHighlightWidth 20, SetGrabWidth 3, SetGrabWidth (- 5), SetHighlightWidth 2]) = 2
   \<and> highlightWidth (foldl widthCall (Splitter_new Left True 200 200 932)
      [SetHighlightWidth 20, SetGrabWidth 3, SetGrabWidth (- 5), SetHighlightWidth 2]) = 2
   \<and> grabWidth (foldl widthCall (Splitter_new Left True 200 200 932)
      [SetHighlightWidth 20, SetGrabWidth 3]) = 3
   \<and> highlightWidth (foldl widthCall (Splitter_new Left True 200 200 932)
      [SetHighlightWidth 20, SetGrabWidth 3]) = 3"
  using widths_ordered_after_calls [of Left True 200 200 932
      "[SetHighlightWidth 20, SetGrabWidth 3, SetGrabWidth (- 5), SetHighlightWidth 2]"]
  by (simp add: setGrabWidth_def setHighlightWidth_def Let_def)

text \<open>
  C10. The claim: the second iteration of the loop of \<^verbatim>\<open>updateGeometries_\<close> assigns each
  splitter the maximum length that the first iteration assigned, so that the loop run
  twice leaves the lengths and maxima that the loop run once leaves.

  The maxima are the same, the lengths are not. On \<open>example_panel_requested\<close>, a window
  at its minimum size whose panel is being shown (the situation of the comment in the
  source), the maxima -132 and 0 lie below the minima 68 and 200: the first iteration
  takes the lengths to -132 and 0, the second one back to 68 and 200.
\<close>

theorem one_pass_counterexample:
  "length_s (splitter0 (updateGeometries example_panel_requested)) = 68
   \<and> length_s (splitter0 (updateGeometries_onePass example_panel_requested)) = - 132
   \<and> length_s (splitter1 (updateGeometries example_panel_requested)) = 200
   \<and> length_s (splitter1 (updateGeometries_onePass example_panel_requested)) = 0"
  by (simp add: example_panel_requested_eq example_defs updateGeometries_onePass_def
      for_loop_0_1)

text \<open>
  C10, amended. The two iterations assign each splitter the same maximum length, and the
  rectangles of the regions do not depend on the loop. A splitter whose minimum length
  is at most the maximum assigned to it is left by the second iteration as the first
  one left it; it is only below its minimum that a maximum makes the iterations differ.
\<close>

theorem two_passes_versus_one:
  "maximumLength (splitter0 (updateGeometries cw))
     = maximumLength (splitter0 (updateGeometries_onePass cw))
   \<and> maximumLength (splitter1 (updateGeometries cw))
     = maximumLength (splitter1 (updateGeometries_onePass cw))
   \<and> maximumLength (splitter2 (updateGeometries cw))
     = maximumLength (splitter2 (updateGeometries_onePass cw))
   \<and> (minimumLength (splitter0 cw) \<le> maximumLength (splitter0 (updateGeometries cw))
        \<longrightarrow> splitter0 (updateGeometries cw) = splitter0 (updateGeometries_onePass cw))
   \<and> (minimumLength (splitter1 cw) \<le> maximumLength (splitter1 (updateGeometries cw))
        \<longrightarrow> splitter1 (updateGeometries cw) = splitter1 (updateGeometries_onePass cw))
   \<and> (minimumLength (splitter2 cw) \<le> maximumLength (splitter2 (updateGeometries cw))
        \<longrightarrow> splitter2 (updateGeometries cw) = splitter2 (updateGeometries_onePass cw))
   \<and> toolbar (updateGeometries cw) = toolbar (updateGeometries_onePass cw)
   \<and> viewer (updateGeometries cw) = viewer (updateGeometries_onePass cw)
   \<and> console (updateGeometries cw) = console (updateGeometries_onePass cw)
   \<and> panel (updateGeometries cw) = panel (updateGeometries_onePass cw)"
  by (simp add: updateGeometries_splitters updateGeometries_onePass_splitters
      updateGeometries_onePass_regions setMaximumLengthTwice_def setMaximumLength_again)

theorem two_passes_versus_one_witness:
  "minimumLength (splitter0 example_dragged) = 68
   \<and> maximumLength (splitter0 (updateGeometries example_dragged)) = 500
   \<and> minimumLength (splitter1 example_dragged) = 200
   \<and> maximumLength (splitter1 (updateGeometries example_dragged)) = 932
   \<and> minimumLength (splitter2 example_dragged) = 50
   \<and> maximumLength (splitter2 (updateGeometries example_dragged)) = 800
   \<and> splitter0 (updateGeometries example_dragged) = splitter0 (updateGeometries_onePass example_dragged)
   \<and> splitter1 (updateGeometries example_dragged) = splitter1 (updateGeometries_onePass example_dragged)
   \<and> splitter2 (updateGeometries example_dragged) = splitter2 (updateGeometries_onePass example_dragged)"
  using two_passes_versus_one [of example_dragged]
  by (simp add: example_dragged_eq example_defs updateGeometries_onePass_def for_loop_0_1)

end
